theory Spec2Isabelle
  imports Main "HOL-Library.AList" "HOL-Library.Multiset"
begin

section \<open>Node identifiers as JavaScript values\<close>

text \<open>
  A node id reaches the editor either as a number (what \<open>addNode\<close> returns in
  sequential mode, and what the README passes) or as a string (what is read back from a
  DOM class or an object key). \<open>===\<close> never identifies a number with a string, which
  is exactly equality of the datatype below. Numbers are the counter's values, so they
  are naturals. Strings are sequences of the characters U+0000 to U+00FF.
\<close>

datatype ident = IdNum nat | IdStr string

definition digit_char :: "nat \<Rightarrow> char" where
  "digit_char d = ''0123456789'' ! d"

function string_of_nat :: "nat \<Rightarrow> string" where
  "string_of_nat n =
     (if n < 10 then [digit_char n]
      else string_of_nat (n div 10) @ [digit_char (n mod 10)])"
  by pat_completeness auto
termination
  by (relation "measure id") auto

declare string_of_nat.simps [simp del]

text \<open>
  \<open>n + 1\<close> for a Number that holds the natural \<open>n\<close>. Below \<open>2^53\<close> the sum is exact.
  From there on it is rounded to the nearest Number, a tie going to the even
  significand: between \<open>2^53\<close> and \<open>2^54\<close> the Numbers are the even naturals, above
  \<open>2^54\<close> they are at least 4 apart. So \<open>nodeId++\<close> no longer advances a counter that
  stands at \<open>2^53\<close>.
\<close>

definition js_succ :: "nat \<Rightarrow> nat" where
  "js_succ n =
     (if int n < 9007199254740992 then n + 1
      else if int n < 18014398509481984 \<and> n mod 4 = 2 then n + 2
      else n)"

text \<open>
  \<open>String(id)\<close>: the property key and the text spliced into a class name (the decimal
  numeral; a Number from \<open>10^21\<close> on is printed with an exponent, which no counter
  reaches by counting).
\<close>

fun to_string :: "ident \<Rightarrow> string" where
  "to_string (IdNum n) = string_of_nat n"
| "to_string (IdStr s) = s"

definition is_digit :: "char \<Rightarrow> bool" where
  "is_digit c = (c \<in> set ''0123456789'')"

definition digit_val :: "char \<Rightarrow> nat" where
  "digit_val c = length (takeWhile (\<lambda>d. d \<noteq> c) ''0123456789'')"

fun digits_val :: "nat \<Rightarrow> string \<Rightarrow> nat" where
  "digits_val acc [] = acc"
| "digits_val acc (c # cs) = digits_val (acc * 10 + digit_val c) cs"

text \<open>
  \<open>Number(key)\<close> as the loose comparison \<open>key == id\<close> applies it to an object key
  when \<open>id\<close> is a number. The model reads decimal digit strings (and the empty string,
  which is 0) and takes every other key for \<open>NaN\<close>. It is exact on the keys \<open>addNode\<close>
  writes, the decimal numerals below \<open>2^53\<close>, and on keys that \<open>Number\<close> does not read
  at all, such as UUIDs. Keys that \<open>Number\<close> reads in another notation (surrounding
  white space, a sign, a fraction, an exponent, a radix prefix, \<open>Infinity\<close>) or rounds
  (from \<open>2^53\<close> on) are outside the model. The general statements below look an id up
  as a string, or in a store whose keys are numerals below the counter
  (\<open>counter_fresh\<close>).
\<close>

definition to_number :: "string \<Rightarrow> nat option" where
  "to_number k = (if list_all is_digit k then Some (digits_val 0 k) else None)"

text \<open>\<open>node == id\<close> for an object key \<open>node\<close>.\<close>

fun loose_eq :: "string \<Rightarrow> ident \<Rightarrow> bool" where
  "loose_eq k (IdStr s) = (k = s)"
| "loose_eq k (IdNum n) = (to_number k = Some n)"

text \<open>
  \<open>parseInt(key)\<close> with no radix: leading white space is skipped, a sign is read, the
  prefix \<open>0x\<close> or \<open>0X\<close> selects radix 16, and the longest run of digits of the radix
  is the value; without a digit the result is \<open>NaN\<close> (\<open>None\<close>). The value is the
  mathematical one: the Number that \<open>parseInt\<close> returns equals it when its magnitude is
  below \<open>2^53\<close> and is rounded otherwise, which \<open>safe_keys\<close> below excludes.
\<close>

definition is_space :: "char \<Rightarrow> bool" where
  "is_space c =
     (c \<in> set [CHR 0x09, CHR 0x0A, CHR 0x0B, CHR 0x0C, CHR 0x0D, CHR 0x20, CHR 0xA0])"

definition is_hex :: "char \<Rightarrow> bool" where
  "is_hex c = (c \<in> set ''0123456789abcdefABCDEF'')"

definition hex_val :: "char \<Rightarrow> nat" where
  "hex_val c =
     (if is_digit c then digit_val c
      else 10 + length (takeWhile (\<lambda>d. d \<noteq> c) ''abcdefABCDEF'') mod 6)"

fun hex_digits_val :: "nat \<Rightarrow> string \<Rightarrow> nat" where
  "hex_digits_val acc [] = acc"
| "hex_digits_val acc (c # cs) = hex_digits_val (acc * 16 + hex_val c) cs"

definition parseInt :: "string \<Rightarrow> int option" where
  "parseInt k =
     (let s1 = dropWhile is_space k;
          negative = (take 1 s1 = ''-'');
          s2 = (if take 1 s1 = ''-'' \<or> take 1 s1 = ''+'' then drop 1 s1 else s1);
          hex = (take 2 s2 = ''0x'' \<or> take 2 s2 = ''0X'');
          ds = (if hex then takeWhile is_hex (drop 2 s2) else takeWhile is_digit s2);
          v = (if hex then hex_digits_val 0 ds else digits_val 0 ds)
      in if ds = [] then None
         else Some (if negative then - int v else int v))"

text \<open>
  Selectors. \<open>'.node_out_node-' + id\<close> and \<open>'#' + id\<close> are spliced from ids. An id made
  of letters, digits, \<open>-\<close> and \<open>_\<close> continues the class name, so the class selector is
  valid and selects by equality; \<open>'#' + id\<close> is valid when the id is moreover an
  identifier, which does not start with a digit, nor with \<open>-\<close> and a digit, and is not
  \<open>-\<close> alone. With any other character the selector is, as a rule, invalid and
  \<open>querySelector\<close> throws a \<open>DOMException\<close>; the model throws for all of them.
\<close>

definition is_letter :: "char \<Rightarrow> bool" where
  "is_letter c = (c \<in> set ''abcdefghijklmnopqrstuvwxyzABCDEFGHIJKLMNOPQRSTUVWXYZ'')"

definition name_char :: "char \<Rightarrow> bool" where
  "name_char c = (is_letter c \<or> is_digit c \<or> c = CHR ''-'' \<or> c = CHR ''_'')"

definition name_start :: "char \<Rightarrow> bool" where
  "name_start c = (is_letter c \<or> c = CHR ''_'')"

definition is_ident :: "string \<Rightarrow> bool" where
  "is_ident k =
     (list_all name_char k \<and>
      (case k of
         [] \<Rightarrow> False
       | c # cs \<Rightarrow>
           name_start c \<or>
           (c = CHR ''-'' \<and> (case cs of [] \<Rightarrow> False | d # _ \<Rightarrow> name_start d \<or> d = CHR ''-''))))"

text \<open>
  \<open>classList.add(...classoverride.split(' '))\<close> throws a \<open>DOMException\<close> for a token
  that is empty or contains ASCII white space.
\<close>

fun split_on :: "char \<Rightarrow> string \<Rightarrow> string list" where
  "split_on sep [] = [[]]"
| "split_on sep (x # xs) =
     (if x = sep then [] # split_on sep xs
      else (case split_on sep xs of [] \<Rightarrow> [[x]] | t # ts \<Rightarrow> (x # t) # ts))"

definition ascii_space :: "char \<Rightarrow> bool" where
  "ascii_space c = (c \<in> set [CHR 0x09, CHR 0x0A, CHR 0x0C, CHR 0x0D, CHR 0x20])"

definition token_ok :: "string \<Rightarrow> bool" where
  "token_ok t = (t \<noteq> [] \<and> \<not> list_ex ascii_space t)"

definition class_ok :: "string \<Rightarrow> bool" where
  "class_ok c = (c = [] \<or> list_all token_ok (split_on (CHR '' '') c))"

text \<open>\<open>extractNodeId\<close> of utils/string.js, with \<open>NODE_ID_PREFIX = 'node-'\<close>.\<close>

definition extractNodeId :: "string \<Rightarrow> string" where
  "extractNodeId fullId =
     (if fullId = [] then []
      else if take 5 fullId = ''node-'' then drop 5 fullId
      else fullId)"

definition buildNodeId :: "ident \<Rightarrow> string" where
  "buildNodeId i = ''node-'' @ to_string i"

section \<open>The graph store\<close>

datatype json =
    JNull | JBool bool | JNum int | JStr string
  | JArr "json list" | JObj "(string \<times> json) list"

type_synonym point = "int \<times> int"

text \<open>
  A connection is stored twice. The copy in the source node's output port names the
  peer under \<open>node\<close> and the peer's input port under \<open>output\<close>, and alone may carry
  \<open>points\<close>; the copy in the target node's input port names the peer under \<open>node\<close> and
  the peer's output port under \<open>input\<close>.
\<close>

datatype out_conn = OutConn (oc_node: ident) (oc_output: string) (oc_points: "point list option")

datatype in_conn = InConn (ic_node: ident) (ic_input: string)

record node =
  node_id :: ident
  name :: string
  data :: json
  css_class :: string
  html :: string
  typenode :: bool
  inputs :: "(string \<times> in_conn list) list"
  outputs :: "(string \<times> out_conn list) list"
  pos_x :: int
  pos_y :: int

text \<open>
  Objects are association lists in key order, which for an object is: the array indices
  (the decimal numerals of the naturals below \<open>2^32 - 1\<close>) in ascending order, then the
  other keys in the order of their creation. A module \<open>{data: {...}}\<close> is modelled by
  its \<open>data\<close> mapping. A lookup \<open>obj[k]\<close> is modelled by the object's own keys; the
  names every object inherits (\<open>toString\<close>, \<open>constructor\<close>, \<open>__proto__\<close> and the
  like), for which it finds a value without a key, are not used as names of modules or
  nodes.
\<close>

type_synonym module_data = "(string \<times> node) list"

type_synonym store = "(string \<times> module_data) list"

section \<open>The canvas\<close>

text \<open>
  Of the DOM the model keeps what the managers query: per node element its id and the
  classes of its input and output handles, and per connection element the four classes
  after \<open>connection\<close> (\<open>node_in_node-I\<close>, \<open>node_out_node-O\<close>, the output class, the
  input class) with its children. Path geometry and node content are not modelled. The
  five classes of a connection element are taken to be five different tokens, as they
  are for ports named \<open>input_n\<close> and \<open>output_n\<close>.
\<close>

datatype child = MainPath | Point point

record node_el =
  el_id :: string
  el_inputs :: "string list"
  el_outputs :: "string list"

record conn_el =
  c_in :: string
  c_out :: string
  c_outc :: string
  c_inc :: string
  c_children :: "child list"

section \<open>Events\<close>

datatype event =
    NodeCreated ident
  | NodeRemoved string
  | ConnectionCreated ident ident string string
  | ConnectionRemoved ident ident string string
  | ModuleCreated string
  | ModuleChanged string
  | ModuleRemoved string
  | AddReroute string
  | RemoveReroute string
  | Import
  | Export

section \<open>The editor\<close>

text \<open>
  \<open>emitted\<close> is the sequence of \<open>dispatch\<close> calls; each entry pairs the event with the
  active-module field as a listener reads it while the event is delivered.
\<close>

record editor =
  nodeforge :: store
  module :: string
  nodeId :: nat
  reroute :: bool
  reroute_fix_curvature :: bool
  dom_nodes :: "node_el list"
  dom_conns :: "conn_el list"
  emitted :: "(event \<times> string) list"

datatype js_error = TypeError | SyntaxError | DOMException

text \<open>
  An operation either returns a value or throws; in both cases the editor is left in the
  state reached so far.
\<close>

datatype 'a res = Ret 'a editor | Throw js_error editor

fun state_of :: "'a res \<Rightarrow> editor" where
  "state_of (Ret _ s) = s"
| "state_of (Throw _ s) = s"

definition dispatch :: "event \<Rightarrow> editor \<Rightarrow> editor" where
  "dispatch ev s = s\<lparr>emitted := emitted s @ [(ev, module s)]\<rparr>"

text \<open>The editor as the constructor and \<open>start()\<close> leave it.\<close>

definition new_editor :: editor where
  "new_editor =
     \<lparr>nodeforge = [(''Home'', [])], module = ''Home'', nodeId = 1, reroute = False,
      reroute_fix_curvature = False, dom_nodes = [], dom_conns = [], emitted = []\<rparr>"

text \<open>Running a loop body over a list, stopping at the first throw.\<close>

fun for_each :: "('a \<Rightarrow> editor \<Rightarrow> unit res) \<Rightarrow> 'a list \<Rightarrow> editor \<Rightarrow> unit res" where
  "for_each f [] s = Ret () s"
| "for_each f (x # xs) s =
     (case f x s of Ret _ s' \<Rightarrow> for_each f xs s' | Throw e s' \<Rightarrow> Throw e s')"

subsection \<open>Reading and writing the store\<close>

text \<open>
  A property chain such as \<open>nodeforgeData[m].data[k].outputs[p].connections\<close> throws a
  \<open>TypeError\<close> as soon as one link is \<open>undefined\<close>; the readers below return \<open>None\<close>
  then. An absent module name is the key \<open>undefined\<close>.
\<close>

fun prop_key :: "string option \<Rightarrow> string" where
  "prop_key None = ''undefined''"
| "prop_key (Some k) = k"

definition get_node :: "store \<Rightarrow> string \<Rightarrow> string \<Rightarrow> node option" where
  "get_node st m k = (case map_of st m of None \<Rightarrow> None | Some d \<Rightarrow> map_of d k)"

definition out_conns :: "store \<Rightarrow> string \<Rightarrow> string \<Rightarrow> string \<Rightarrow> out_conn list option" where
  "out_conns st m k p = (case get_node st m k of None \<Rightarrow> None | Some n \<Rightarrow> map_of (outputs n) p)"

definition in_conns :: "store \<Rightarrow> string \<Rightarrow> string \<Rightarrow> string \<Rightarrow> in_conn list option" where
  "in_conns st m k p = (case get_node st m k of None \<Rightarrow> None | Some n \<Rightarrow> map_of (inputs n) p)"

definition upd_node :: "string \<Rightarrow> string \<Rightarrow> (node \<Rightarrow> node) \<Rightarrow> store \<Rightarrow> store" where
  "upd_node m k f st = AList.map_entry m (AList.map_entry k f) st"

definition upd_outputs ::
  "string \<Rightarrow> string \<Rightarrow> string \<Rightarrow> (out_conn list \<Rightarrow> out_conn list) \<Rightarrow> store \<Rightarrow> store" where
  "upd_outputs m k p f st = upd_node m k (\<lambda>n. n\<lparr>outputs := AList.map_entry p f (outputs n)\<rparr>) st"

definition upd_inputs ::
  "string \<Rightarrow> string \<Rightarrow> string \<Rightarrow> (in_conn list \<Rightarrow> in_conn list) \<Rightarrow> store \<Rightarrow> store" where
  "upd_inputs m k p f st = upd_node m k (\<lambda>n. n\<lparr>inputs := AList.map_entry p f (inputs n)\<rparr>) st"

text \<open>
  \<open>obj[k] = v\<close>: an existing key keeps its place; a new key that is an array index goes
  behind the smaller indices, any other new key to the end.
\<close>

definition is_index :: "string \<Rightarrow> bool" where
  "is_index k =
     (k \<noteq> [] \<and> list_all is_digit k \<and> (k = ''0'' \<or> take 1 k \<noteq> ''0'') \<and>
      int (digits_val 0 k) < 4294967295)"

definition index_below :: "string \<Rightarrow> string \<Rightarrow> bool" where
  "index_below k k' = (is_index k' \<and> digits_val 0 k' < digits_val 0 k)"

definition js_update :: "string \<Rightarrow> 'v \<Rightarrow> (string \<times> 'v) list \<Rightarrow> (string \<times> 'v) list" where
  "js_update k v al =
     (if k \<in> set (map fst al) then AList.update k v al
      else if is_index k
      then takeWhile (\<lambda>kv. index_below k (fst kv)) al @ (k, v) #
           dropWhile (\<lambda>kv. index_below k (fst kv)) al
      else al @ [(k, v)])"

text \<open>\<open>Array.prototype.findIndex\<close> (\<open>None\<close> for -1) and \<open>splice(i, 1)\<close>.\<close>

fun findIndex :: "('a \<Rightarrow> bool) \<Rightarrow> 'a list \<Rightarrow> nat option" where
  "findIndex P [] = None"
| "findIndex P (x # xs) = (if P x then Some 0 else map_option Suc (findIndex P xs))"

definition splice1 :: "nat \<Rightarrow> 'a list \<Rightarrow> 'a list" where
  "splice1 i xs = take i xs @ drop (Suc i) xs"

text \<open>
  \<open>xs.splice(xs.findIndex(P), 1)\<close> without a guard: \<open>splice(-1, 1)\<close> removes the last
  element. The guarded form (\<open>if (index > -1)\<close>) leaves the list alone.
\<close>

definition splice_found :: "nat option \<Rightarrow> 'a list \<Rightarrow> 'a list" where
  "splice_found i xs = (case i of None \<Rightarrow> butlast xs | Some j \<Rightarrow> splice1 j xs)"

definition splice_if_found :: "nat option \<Rightarrow> 'a list \<Rightarrow> 'a list" where
  "splice_if_found i xs = (case i of None \<Rightarrow> xs | Some j \<Rightarrow> splice1 j xs)"

subsection \<open>StateManager\<close>

definition getModuleFromNodeId :: "ident \<Rightarrow> editor \<Rightarrow> string option" where
  "getModuleFromNodeId i s =
     fold (\<lambda>(moduleName, d) nameModule.
             fold (\<lambda>(nodeKey, _) nm. if loose_eq nodeKey i then Some moduleName else nm)
               d nameModule)
       (nodeforge s) None"

text \<open>
  \<open>JSON.parse(JSON.stringify(nodeforgeData[moduleName].data[id]))\<close>: a missing module is a
  \<open>TypeError\<close> (\<open>.data\<close> of \<open>undefined\<close>); a missing node makes \<open>JSON.parse\<close> refuse
  \<open>undefined\<close> with a \<open>SyntaxError\<close>.
\<close>

definition getNodeFromId :: "ident \<Rightarrow> editor \<Rightarrow> node res" where
  "getNodeFromId i s =
     (case map_of (nodeforge s) (prop_key (getModuleFromNodeId i s)) of
        None \<Rightarrow> Throw TypeError s
      | Some d \<Rightarrow>
          (case map_of d (to_string i) of
             None \<Rightarrow> Throw SyntaxError s
           | Some n \<Rightarrow> Ret n s))"

subsection \<open>Querying the canvas\<close>

text \<open>\<open>container.querySelector('#' + id)\<close> for a node element.\<close>

definition query_node :: "string \<Rightarrow> editor \<Rightarrow> node_el option" where
  "query_node dom_id s = find (\<lambda>e. el_id e = dom_id) (dom_nodes s)"

text \<open>
  \<open>nodeElement.querySelectorAll('.' + cls)[0]\<close> is defined when a handle of the node
  carries the class.
\<close>

definition has_handle :: "node_el \<Rightarrow> string \<Rightarrow> bool" where
  "has_handle e cls = (cls \<in> set (el_inputs e @ el_outputs e))"

text \<open>
  The selector
  \<open>.connection.node_in_node-I.node_out_node-O.OUTPUT_CLASS.INPUT_CLASS\<close>.
\<close>

definition conn_matches :: "string \<Rightarrow> string \<Rightarrow> string \<Rightarrow> string \<Rightarrow> conn_el \<Rightarrow> bool" where
  "conn_matches i_in i_out outc inc e =
     (c_in e = i_in \<and> c_out e = i_out \<and> c_outc e = outc \<and> c_inc e = inc)"

fun remove_first :: "('a \<Rightarrow> bool) \<Rightarrow> 'a list \<Rightarrow> 'a list" where
  "remove_first P [] = []"
| "remove_first P (x # xs) = (if P x then xs else x # remove_first P xs)"

fun update_first :: "('a \<Rightarrow> bool) \<Rightarrow> ('a \<Rightarrow> 'a) \<Rightarrow> 'a list \<Rightarrow> 'a list" where
  "update_first P f [] = []"
| "update_first P f (x # xs) = (if P x then f x # xs else x # update_first P f xs)"

subsection \<open>ConnectionManager.updateConnectionNodes\<close>

text \<open>
  Redrawing writes only path geometry, which is not part of the model; what is kept is
  where it dereferences an element that is not there. A connection without reroute
  points needs both handles (\<open>getElementCenterCoords\<close> reads them); one with reroute
  points returns early when a handle is missing.
\<close>

definition redraw_ok :: "conn_el \<Rightarrow> editor \<Rightarrow> bool" where
  "redraw_ok e s =
     (case query_node (''node-'' @ c_out e) s of
        None \<Rightarrow> False
      | Some no \<Rightarrow>
          (case query_node (''node-'' @ c_in e) s of
             None \<Rightarrow> False
           | Some ni \<Rightarrow>
               (if filter (\<lambda>c. c \<noteq> MainPath) (c_children e) = []
                then has_handle no (c_outc e) \<and> has_handle ni (c_inc e)
                else True)))"

definition updateConnectionNodes :: "string \<Rightarrow> editor \<Rightarrow> unit res" where
  "updateConnectionNodes dom_id s =
     (let elemsOut = filter (\<lambda>e. ''node-'' @ c_out e = dom_id) (dom_conns s);
          elemsIn = filter (\<lambda>e. ''node-'' @ c_in e = dom_id) (dom_conns s)
      in if list_all (\<lambda>e. redraw_ok e s) (elemsOut @ elemsIn) then Ret () s
         else Throw TypeError s)"

subsection \<open>NodeManager.addNode and addNodeImport\<close>

definition port_names :: "string \<Rightarrow> nat \<Rightarrow> string list" where
  "port_names pre n = map (\<lambda>x. pre @ string_of_nat (x + 1)) [0..<n]"

text \<open>
  Sequential-id mode (\<open>useuuid = false\<close>) with literal markup (\<open>typenode = false\<close>);
  port counts are naturals. The counter is advanced first. Then \<open>classList.add\<close> throws
  for a bad class token and \<open>Object.entries(data)\<close> for \<open>data = null\<close>, before anything
  is shown. The element is appended to the canvas before the record is stored, so a
  missing active module throws with the element already there.

  The loop over the entries of \<open>data\<close> fills form fields of the node's content, which is
  not modelled. It calls \<open>querySelectorAll('[df-' + path + ']')\<close> for the keys of \<open>data\<close>,
  joined by \<open>-\<close> along nested objects, which is a valid selector when the keys are made
  of letters, digits, \<open>-\<close> and \<open>_\<close> (\<open>plain_data\<close>). As for the selectors made from
  ids, a key with another character as a rule breaks the selector, and the model throws
  for all of them.
\<close>

primrec plain_data :: "json \<Rightarrow> bool" where
  "plain_data JNull = True"
| "plain_data (JBool b) = True"
| "plain_data (JNum n) = True"
| "plain_data (JStr t) = True"
| "plain_data (JArr vs) = list_all (\<lambda>ok. ok) (map plain_data vs)"
| "plain_data (JObj kvs) =
     list_all (\<lambda>kv. list_all name_char (fst kv) \<and> snd kv) (map (map_prod id plain_data) kvs)"

definition addNode ::
  "string \<Rightarrow> nat \<Rightarrow> nat \<Rightarrow> int \<Rightarrow> int \<Rightarrow> string \<Rightarrow> json \<Rightarrow> string \<Rightarrow> editor \<Rightarrow> ident res" where
  "addNode nm num_in num_out ele_pos_x ele_pos_y classoverride dat htm s =
     (let newNodeId = nodeId s;
          s1 = s\<lparr>nodeId := js_succ (nodeId s)\<rparr>;
          json_inputs = map (\<lambda>p. (p, [])) (port_names ''input_'' num_in);
          json_outputs = map (\<lambda>p. (p, [])) (port_names ''output_'' num_out);
          s2 = s1\<lparr>dom_nodes := dom_nodes s1 @
                 [\<lparr>el_id = buildNodeId (IdNum newNodeId),
                   el_inputs = port_names ''input_'' num_in,
                   el_outputs = port_names ''output_'' num_out\<rparr>]\<rparr>;
          json = \<lparr>node_id = IdNum newNodeId, name = nm, data = dat,
                  css_class = classoverride, html = htm, typenode = False,
                  inputs = json_inputs, outputs = json_outputs,
                  pos_x = ele_pos_x, pos_y = ele_pos_y\<rparr>
      in if \<not> class_ok classoverride then Throw DOMException s1
         else if dat = JNull then Throw TypeError s1
         else if \<not> plain_data dat then Throw DOMException s1
         else
           (case map_of (nodeforge s2) (module s2) of
              None \<Rightarrow> Throw TypeError s2
            | Some d \<Rightarrow>
                Ret (IdNum newNodeId)
                  (dispatch (NodeCreated (IdNum newNodeId))
                     (s2\<lparr>nodeforge :=
                           AList.update (module s2)
                             (js_update (string_of_nat newNodeId) json d) (nodeforge s2)\<rparr>))))"

text \<open>
  \<open>addNodeImport\<close>: the connection elements are made from the input side and appended
  first; output handles are renumbered \<open>output_1..output_n\<close>. No node type is registered,
  so a record with \<open>typenode = true\<close> fails at \<open>nodeRegister[html].html\<close>. The class
  tokens it adds and the data it reads are taken to be well formed, as \<open>addNode\<close> leaves
  them (it throws for others, as \<open>addNode\<close> does); general statements about \<open>load\<close> are
  made for the case that it returns.
\<close>

definition import_conn_els :: "node \<Rightarrow> conn_el list" where
  "import_conn_els dataNode =
     concat (map (\<lambda>(input_item, conns).
               map (\<lambda>c. \<lparr>c_in = to_string (node_id dataNode), c_out = to_string (ic_node c),
                          c_outc = ic_input c, c_inc = input_item, c_children = [MainPath]\<rparr>)
                 conns)
            (inputs dataNode))"

definition addNodeImport :: "node \<Rightarrow> editor \<Rightarrow> unit res" where
  "addNodeImport dataNode s =
     (let s1 = s\<lparr>dom_conns := dom_conns s @ import_conn_els dataNode\<rparr>
      in if typenode dataNode then Throw TypeError s1
         else Ret ()
                (s1\<lparr>dom_nodes := dom_nodes s1 @
                      [\<lparr>el_id = buildNodeId (node_id dataNode),
                        el_inputs = map fst (inputs dataNode),
                        el_outputs = port_names ''output_'' (length (outputs dataNode))\<rparr>]\<rparr>))"

subsection \<open>RerouteManager.addRerouteImport\<close>

definition import_points :: "node \<Rightarrow> string \<Rightarrow> out_conn \<Rightarrow> editor \<Rightarrow> unit res" where
  "import_points dataNode output_item c s =
     (case oc_points c of
        None \<Rightarrow> Ret () s
      | Some pts \<Rightarrow>
          (if pts = [] then Ret () s
           else
             (let sel = conn_matches (to_string (oc_node c)) (to_string (node_id dataNode))
                          output_item (oc_output c)
              in if list_ex sel (dom_conns s)
                 then Ret ()
                        (s\<lparr>dom_conns :=
                             update_first sel
                               (\<lambda>e. e\<lparr>c_children := c_children e @
                                      (if reroute_fix_curvature s
                                       then replicate (length pts) MainPath else []) @
                                      map Point pts\<rparr>)
                               (dom_conns s)\<rparr>)
                 else Throw TypeError s)))"

definition addRerouteImport :: "node \<Rightarrow> editor \<Rightarrow> unit res" where
  "addRerouteImport dataNode s =
     for_each (\<lambda>(output_item, c). import_points dataNode output_item c)
       (concat (map (\<lambda>(output_item, conns). map (\<lambda>c. (output_item, c)) conns)
                  (outputs dataNode)))
       s"

subsection \<open>NodeForge.load\<close>

text \<open>
  The counter: \<open>number = 1\<close>, then for every key of every module
  \<open>if (parseInt(id) >= number) number = parseInt(id) + 1\<close>.
\<close>

definition next_number :: "store \<Rightarrow> nat" where
  "next_number st =
     fold (\<lambda>(moduleName, d) number.
             fold (\<lambda>(k, _) num.
                     (case parseInt k of
                        None \<Rightarrow> num
                      | Some v \<Rightarrow> if v \<ge> int num then js_succ (nat v) else num))
               d number)
       st 1"

definition load :: "editor \<Rightarrow> unit res" where
  "load s =
     (case map_of (nodeforge s) (module s) of
        None \<Rightarrow> Throw TypeError s
      | Some d \<Rightarrow>
          (case for_each addNodeImport (map snd d) s of
             Throw e s1 \<Rightarrow> Throw e s1
           | Ret _ s1 \<Rightarrow>
               (case (if reroute s1 then for_each addRerouteImport (map snd d) s1
                      else Ret () s1) of
                  Throw e s2 \<Rightarrow> Throw e s2
                | Ret _ s2 \<Rightarrow>
                    (case for_each (\<lambda>k. updateConnectionNodes (''node-'' @ k)) (map fst d) s2 of
                       Throw e s3 \<Rightarrow> Throw e s3
                     | Ret _ s3 \<Rightarrow> Ret () (s3\<lparr>nodeId := next_number (nodeforge s3)\<rparr>)))))"

subsection \<open>ModuleManager.clear, NodeForge.export and import, module switching\<close>

definition clear :: "editor \<Rightarrow> editor" where
  "clear s = s\<lparr>dom_nodes := [], dom_conns := [], nodeforge := [(''Home'', [])]\<rparr>"

text \<open>
  \<open>JSON.parse(JSON.stringify(x))\<close> copies the store; on the values of the store's type
  (strings, numbers, booleans, arrays and objects of them) the copy equals the original.
\<close>

definition json_copy :: "store \<Rightarrow> store" where
  "json_copy st = st"

definition export_data :: "editor \<Rightarrow> store \<times> editor" where
  "export_data s = (let dataExport = json_copy (nodeforge s) in (dataExport, dispatch Export s))"

definition import_data :: "store \<Rightarrow> bool \<Rightarrow> editor \<Rightarrow> unit res" where
  "import_data dat notifi s =
     (let s1 = clear s;
          s2 = s1\<lparr>nodeforge := json_copy dat\<rparr>
      in case load s2 of
           Throw e s3 \<Rightarrow> Throw e s3
         | Ret _ s3 \<Rightarrow> Ret () (if notifi then dispatch Import s3 else s3))"

text \<open>
  \<open>nodeforgeData[name] = {data: {}}\<close> writes the key \<open>name\<close>, except for the name
  \<open>__proto__\<close>, which this assignment does not store as a key.
\<close>

definition addModule :: "string \<Rightarrow> editor \<Rightarrow> editor" where
  "addModule nm s =
     dispatch (ModuleCreated nm)
       (if nm = ''__proto__'' then s else s\<lparr>nodeforge := js_update nm [] (nodeforge s)\<rparr>)"

definition changeModule :: "string \<Rightarrow> editor \<Rightarrow> unit res" where
  "changeModule nm s =
     (let s1 = dispatch (ModuleChanged nm) s;
          s2 = s1\<lparr>module := nm\<rparr>;
          s3 = s2\<lparr>dom_nodes := [], dom_conns := []\<rparr>
      in import_data (nodeforge s3) False s3)"

subsection \<open>ConnectionManager.addConnection\<close>

text \<open>
  The duplicate check compares the stored \<open>node\<close> with the argument by \<open>===\<close>; the
  records pushed hold \<open>id.toString()\<close>. The output-side record is pushed before the
  input-side port is dereferenced.
\<close>

definition addConnection :: "ident \<Rightarrow> ident \<Rightarrow> string \<Rightarrow> string \<Rightarrow> editor \<Rightarrow> bool res" where
  "addConnection id_output id_input output_class input_class s =
     (let nodeOneModule = getModuleFromNodeId id_output s;
          nodeTwoModule = getModuleFromNodeId id_input s;
          m = prop_key nodeOneModule
      in if nodeOneModule = nodeTwoModule then
           (case getNodeFromId id_output s of
              Throw e s' \<Rightarrow> Throw e s'
            | Ret dataNode _ \<Rightarrow>
                (case map_of (outputs dataNode) output_class of
                   None \<Rightarrow> Throw TypeError s
                 | Some conns \<Rightarrow>
                     (let exist = list_ex (\<lambda>connectionSearch.
                                    oc_node connectionSearch = id_input \<and>
                                    oc_output connectionSearch = input_class) conns
                      in if \<not> exist then
                           (let st1 = upd_outputs m (to_string id_output) output_class
                                        (\<lambda>cs. cs @ [OutConn (IdStr (to_string id_input)) input_class None])
                                        (nodeforge s)
                            in case in_conns st1 m (to_string id_input) input_class of
                                 None \<Rightarrow> Throw TypeError (s\<lparr>nodeforge := st1\<rparr>)
                               | Some _ \<Rightarrow>
                                   (let st2 = upd_inputs m (to_string id_input) input_class
                                                (\<lambda>cs. cs @ [InConn (IdStr (to_string id_output)) output_class])
                                                st1;
                                        s2 = s\<lparr>nodeforge := st2\<rparr>;
                                        created = ConnectionCreated id_output id_input output_class input_class
                                    in if Some (module s2) = nodeOneModule then
                                         (let s3 = s2\<lparr>dom_conns := dom_conns s2 @
                                                      [\<lparr>c_in = to_string id_input, c_out = to_string id_output,
                                                        c_outc = output_class, c_inc = input_class,
                                                        c_children = [MainPath]\<rparr>]\<rparr>
                                          in case updateConnectionNodes (buildNodeId id_output) s3 of
                                               Throw e s4 \<Rightarrow> Throw e s4
                                             | Ret _ s4 \<Rightarrow>
                                                 (case updateConnectionNodes (buildNodeId id_input) s4 of
                                                    Throw e s5 \<Rightarrow> Throw e s5
                                                  | Ret _ s5 \<Rightarrow> Ret True (dispatch created s5)))
                                       else Ret True (dispatch created s2)))
                         else Ret False s)))
         else Ret False s)"

subsection \<open>ConnectionManager.removeSingleConnection\<close>

definition removeSingleConnection ::
  "ident \<Rightarrow> ident \<Rightarrow> string \<Rightarrow> string \<Rightarrow> editor \<Rightarrow> unit res" where
  "removeSingleConnection id_output id_input output_class input_class s =
     (let nodeOneModule = getModuleFromNodeId id_output s;
          nodeTwoModule = getModuleFromNodeId id_input s;
          m = prop_key nodeOneModule
      in if nodeOneModule = nodeTwoModule then
           (case out_conns (nodeforge s) m (to_string id_output) output_class of
              None \<Rightarrow> Throw TypeError s
            | Some outputConnections \<Rightarrow>
                (case in_conns (nodeforge s) m (to_string id_input) input_class of
                   None \<Rightarrow> Throw TypeError s
                 | Some inputConnections \<Rightarrow>
                     (let index_out = findIndex (\<lambda>item. oc_node item = id_input \<and>
                                                   oc_output item = input_class) outputConnections;
                          st1 = upd_outputs m (to_string id_output) output_class
                                  (splice_if_found index_out) (nodeforge s);
                          index_in = findIndex (\<lambda>item. ic_node item = id_output \<and>
                                                  ic_input item = output_class) inputConnections;
                          st2 = upd_inputs m (to_string id_input) input_class
                                  (splice_if_found index_in) st1;
                          s1 = s\<lparr>nodeforge := st2,
                                 dom_conns := remove_first
                                    (conn_matches (to_string id_input) (to_string id_output)
                                       output_class input_class) (dom_conns s)\<rparr>
                      in Ret () (dispatch (ConnectionRemoved id_output id_input output_class input_class) s1))))
         else Ret () s)"

subsection \<open>ConnectionManager.removeConnectionNodeId\<close>

text \<open>
  Both loops run over the connection elements found on the canvas before the first
  removal, last element first. The ids are read back from the element's classes, so they
  are strings; neither \<open>splice\<close> is guarded. The two \<open>querySelectorAll\<close> calls come
  first and throw for an id that breaks the selector.
\<close>

definition remove_out_step :: "conn_el \<Rightarrow> editor \<Rightarrow> unit res" where
  "remove_out_step e s =
     (let id_output = c_out e; id_input = c_in e;
          output_class = c_outc e; input_class = c_inc e; m = module s
      in case in_conns (nodeforge s) m id_input input_class of
           None \<Rightarrow> Throw TypeError s
         | Some inputConnections \<Rightarrow>
             (let index_in = findIndex (\<lambda>item. ic_node item = IdStr id_output \<and>
                                          ic_input item = output_class) inputConnections;
                  st1 = upd_inputs m id_input input_class (splice_found index_in) (nodeforge s)
              in case out_conns st1 m id_output output_class of
                   None \<Rightarrow> Throw TypeError (s\<lparr>nodeforge := st1\<rparr>)
                 | Some outputConnections \<Rightarrow>
                     (let index_out = findIndex (\<lambda>item. oc_node item = IdStr id_input \<and>
                                                   oc_output item = input_class) outputConnections;
                          st2 = upd_outputs m id_output output_class (splice_found index_out) st1
                      in Ret ()
                           (dispatch (ConnectionRemoved (IdStr id_output) (IdStr id_input)
                                        output_class input_class)
                              (s\<lparr>nodeforge := st2, dom_conns := remove1 e (dom_conns s)\<rparr>)))))"

definition remove_in_step :: "conn_el \<Rightarrow> editor \<Rightarrow> unit res" where
  "remove_in_step e s =
     (let id_output = c_out e; id_input = c_in e;
          output_class = c_outc e; input_class = c_inc e; m = module s
      in case out_conns (nodeforge s) m id_output output_class of
           None \<Rightarrow> Throw TypeError s
         | Some outputConnections \<Rightarrow>
             (let index_out = findIndex (\<lambda>item. oc_node item = IdStr id_input \<and>
                                           oc_output item = input_class) outputConnections;
                  st1 = upd_outputs m id_output output_class (splice_found index_out) (nodeforge s)
              in case in_conns st1 m id_input input_class of
                   None \<Rightarrow> Throw TypeError (s\<lparr>nodeforge := st1\<rparr>)
                 | Some inputConnections \<Rightarrow>
                     (let index_in = findIndex (\<lambda>item. ic_node item = IdStr id_output \<and>
                                                  ic_input item = output_class) inputConnections;
                          st2 = upd_inputs m id_input input_class (splice_found index_in) st1
                      in Ret ()
                           (dispatch (ConnectionRemoved (IdStr id_output) (IdStr id_input)
                                        output_class input_class)
                              (s\<lparr>nodeforge := st2, dom_conns := remove1 e (dom_conns s)\<rparr>)))))"

definition removeConnectionNodeId :: "ident \<Rightarrow> editor \<Rightarrow> unit res" where
  "removeConnectionNodeId i s =
     (let elemsOut = filter (\<lambda>e. c_out e = to_string i) (dom_conns s);
          elemsIn = filter (\<lambda>e. c_in e = to_string i) (dom_conns s)
      in if \<not> list_all name_char (to_string i) then Throw DOMException s
         else
           (case for_each remove_out_step (rev elemsOut) s of
              Throw e s1 \<Rightarrow> Throw e s1
            | Ret _ s1 \<Rightarrow> for_each remove_in_step (rev elemsIn) s1))"

subsection \<open>NodeManager.removeNodeId\<close>

text \<open>
  The connections are removed first; \<open>container.querySelector('#' + id)\<close> then throws for
  an argument that is no identifier (such as a bare \<open>2\<close>), before the record is deleted.
\<close>

definition removeNodeId :: "string \<Rightarrow> editor \<Rightarrow> unit res" where
  "removeNodeId dom_id s =
     (let nodeId = extractNodeId dom_id;
          moduleName = getModuleFromNodeId (IdStr nodeId) s
      in case removeConnectionNodeId (IdStr nodeId) s of
           Throw e s1 \<Rightarrow> Throw e s1
         | Ret _ s1 \<Rightarrow>
             (if \<not> is_ident dom_id then Throw DOMException s1
              else
                (let s2 = s1\<lparr>dom_nodes := remove_first (\<lambda>e. el_id e = dom_id) (dom_nodes s1)\<rparr>
                 in case map_of (nodeforge s2) (prop_key moduleName) of
                      None \<Rightarrow> Throw TypeError s2
                    | Some d \<Rightarrow>
                        Ret ()
                          (dispatch (NodeRemoved nodeId)
                             (s2\<lparr>nodeforge :=
                                   AList.map_entry (prop_key moduleName) (AList.delete nodeId)
                                     (nodeforge s2)\<rparr>)))))"

subsection \<open>NodeManager.addNodeInput and addNodeOutput\<close>

text \<open>
  \<open>numInputs\<close> is declared \<open>const\<close>, so the branch for the node name \<open>telegram\<close> throws
  at its assignment. The handle is appended to the node's element before the port is
  written to the store.
\<close>

definition addNodeInput :: "ident \<Rightarrow> editor \<Rightarrow> unit res" where
  "addNodeInput i s =
     (let moduleName = prop_key (getModuleFromNodeId i s)
      in case get_node (nodeforge s) moduleName (to_string i) of
           None \<Rightarrow> Throw TypeError s
         | Some infoNode \<Rightarrow>
             (let numInputs = length (inputs infoNode)
              in if name infoNode = ''telegram'' then Throw TypeError s
                 else
                   (let input_class = ''input_'' @ string_of_nat (numInputs + 1)
                    in case query_node (''node-'' @ to_string i) s of
                         None \<Rightarrow> Throw TypeError s
                       | Some parent \<Rightarrow>
                           Ret ()
                             (s\<lparr>dom_nodes :=
                                  update_first (\<lambda>e. el_id e = ''node-'' @ to_string i)
                                    (\<lambda>e. e\<lparr>el_inputs := el_inputs e @ [input_class]\<rparr>)
                                    (dom_nodes s),
                                nodeforge :=
                                  upd_node moduleName (to_string i)
                                    (\<lambda>n. n\<lparr>inputs := AList.update input_class [] (inputs n)\<rparr>)
                                    (nodeforge s)\<rparr>))))"

definition addNodeOutput :: "ident \<Rightarrow> editor \<Rightarrow> unit res" where
  "addNodeOutput i s =
     (let moduleName = prop_key (getModuleFromNodeId i s)
      in case get_node (nodeforge s) moduleName (to_string i) of
           None \<Rightarrow> Throw TypeError s
         | Some infoNode \<Rightarrow>
             (let numOutputs = length (outputs infoNode)
              in if name infoNode = ''telegram'' then Throw TypeError s
                 else
                   (let output_class = ''output_'' @ string_of_nat (numOutputs + 1)
                    in case query_node (''node-'' @ to_string i) s of
                         None \<Rightarrow> Throw TypeError s
                       | Some parent \<Rightarrow>
                           Ret ()
                             (s\<lparr>dom_nodes :=
                                  update_first (\<lambda>e. el_id e = ''node-'' @ to_string i)
                                    (\<lambda>e. e\<lparr>el_outputs := el_outputs e @ [output_class]\<rparr>)
                                    (dom_nodes s),
                                nodeforge :=
                                  upd_node moduleName (to_string i)
                                    (\<lambda>n. n\<lparr>outputs := AList.update output_class [] (outputs n)\<rparr>)
                                    (nodeforge s)\<rparr>))))"

subsection \<open>NodeManager.removeNodeInput and removeNodeOutput\<close>

text \<open>
  The inner \<open>forEach\<close> visits the indices the peer's list had when it started and reads
  the list as it is at each visit, so an element that moves down after a \<open>splice\<close> is
  skipped. The peer's record is matched against the id as the caller passed it.
\<close>

definition remove_input_visit ::
  "string \<Rightarrow> ident \<Rightarrow> string \<Rightarrow> ident \<Rightarrow> string \<Rightarrow> nat \<Rightarrow> editor \<Rightarrow> unit res" where
  "remove_input_visit m id_input input_class id_output output_class j s =
     (case out_conns (nodeforge s) m (to_string id_output) output_class of
        None \<Rightarrow> Throw TypeError s
      | Some conns \<Rightarrow>
          (if j < length conns \<and> oc_node (conns ! j) = id_input \<and>
              oc_output (conns ! j) = input_class
           then
             (let s1 = s\<lparr>nodeforge := upd_outputs m (to_string id_output) output_class
                                        (splice1 j) (nodeforge s)\<rparr>;
                  sel = conn_matches (to_string id_input) (to_string id_output)
                          output_class input_class
              in if list_ex sel (dom_conns s1)
                 then Ret ()
                        (dispatch (ConnectionRemoved id_output id_input output_class input_class)
                           (s1\<lparr>dom_conns := remove_first sel (dom_conns s1)\<rparr>))
                 else Throw TypeError s1)
           else Ret () s))"

definition remove_input_item :: "string \<Rightarrow> ident \<Rightarrow> string \<Rightarrow> in_conn \<Rightarrow> editor \<Rightarrow> unit res" where
  "remove_input_item m id_input input_class item s =
     (let id_output = ic_node item; output_class = ic_input item
      in case out_conns (nodeforge s) m (to_string id_output) output_class of
           None \<Rightarrow> Throw TypeError s
         | Some conns \<Rightarrow>
             for_each (remove_input_visit m id_input input_class id_output output_class)
               [0..<length conns] s)"

definition removeNodeInput :: "ident \<Rightarrow> string \<Rightarrow> editor \<Rightarrow> unit res" where
  "removeNodeInput i input_class s =
     (let moduleName = prop_key (getModuleFromNodeId i s)
      in case in_conns (nodeforge s) moduleName (to_string i) input_class of
           None \<Rightarrow> Throw TypeError s
         | Some conns \<Rightarrow>
             (case for_each (remove_input_item moduleName i input_class) conns s of
                Throw e s1 \<Rightarrow> Throw e s1
              | Ret _ s1 \<Rightarrow>
                  (let s2 = s1\<lparr>nodeforge :=
                                 upd_node moduleName (to_string i)
                                   (\<lambda>n. n\<lparr>inputs := AList.delete input_class (inputs n)\<rparr>)
                                   (nodeforge s1)\<rparr>
                   in case query_node (''node-'' @ to_string i) s2 of
                        None \<Rightarrow> Throw TypeError s2
                      | Some ele \<Rightarrow>
                          (if has_handle ele input_class
                           then Ret ()
                                  (s2\<lparr>dom_nodes :=
                                        update_first (\<lambda>e. el_id e = ''node-'' @ to_string i)
                                          (\<lambda>e. if input_class \<in> set (el_inputs e)
                                                then e\<lparr>el_inputs := remove1 input_class (el_inputs e)\<rparr>
                                                else e\<lparr>el_outputs := remove1 input_class (el_outputs e)\<rparr>)
                                          (dom_nodes s2)\<rparr>)
                           else Throw TypeError s2))))"

definition remove_output_visit ::
  "string \<Rightarrow> ident \<Rightarrow> string \<Rightarrow> ident \<Rightarrow> string \<Rightarrow> nat \<Rightarrow> editor \<Rightarrow> unit res" where
  "remove_output_visit m id_output output_class id_input input_class j s =
     (case in_conns (nodeforge s) m (to_string id_input) input_class of
        None \<Rightarrow> Throw TypeError s
      | Some conns \<Rightarrow>
          (if j < length conns \<and> ic_node (conns ! j) = id_output \<and>
              ic_input (conns ! j) = output_class
           then
             (let s1 = s\<lparr>nodeforge := upd_inputs m (to_string id_input) input_class
                                        (splice1 j) (nodeforge s)\<rparr>;
                  sel = conn_matches (to_string id_input) (to_string id_output)
                          output_class input_class
              in if list_ex sel (dom_conns s1)
                 then Ret ()
                        (dispatch (ConnectionRemoved id_output id_input output_class input_class)
                           (s1\<lparr>dom_conns := remove_first sel (dom_conns s1)\<rparr>))
                 else Throw TypeError s1)
           else Ret () s))"

definition remove_output_item :: "string \<Rightarrow> ident \<Rightarrow> string \<Rightarrow> out_conn \<Rightarrow> editor \<Rightarrow> unit res" where
  "remove_output_item m id_output output_class item s =
     (let id_input = oc_node item; input_class = oc_output item
      in case in_conns (nodeforge s) m (to_string id_input) input_class of
           None \<Rightarrow> Throw TypeError s
         | Some conns \<Rightarrow>
             for_each (remove_output_visit m id_output output_class id_input input_class)
               [0..<length conns] s)"

definition removeNodeOutput :: "ident \<Rightarrow> string \<Rightarrow> editor \<Rightarrow> unit res" where
  "removeNodeOutput i output_class s =
     (let moduleName = prop_key (getModuleFromNodeId i s)
      in case out_conns (nodeforge s) moduleName (to_string i) output_class of
           None \<Rightarrow> Throw TypeError s
         | Some conns \<Rightarrow>
             (case for_each (remove_output_item moduleName i output_class) conns s of
                Throw e s1 \<Rightarrow> Throw e s1
              | Ret _ s1 \<Rightarrow>
                  (let s2 = s1\<lparr>nodeforge :=
                                 upd_node moduleName (to_string i)
                                   (\<lambda>n. n\<lparr>outputs := AList.delete output_class (outputs n)\<rparr>)
                                   (nodeforge s1)\<rparr>
                   in case query_node (''node-'' @ to_string i) s2 of
                        None \<Rightarrow> Throw TypeError s2
                      | Some ele \<Rightarrow>
                          (if has_handle ele output_class
                           then Ret ()
                                  (s2\<lparr>dom_nodes :=
                                        update_first (\<lambda>e. el_id e = ''node-'' @ to_string i)
                                          (\<lambda>e. if output_class \<in> set (el_inputs e)
                                                then e\<lparr>el_inputs := remove1 output_class (el_inputs e)\<rparr>
                                                else e\<lparr>el_outputs := remove1 output_class (el_outputs e)\<rparr>)
                                          (dom_nodes s2)\<rparr>)
                           else Throw TypeError s2))))"

subsection \<open>RerouteManager.createReroutePoint and removeReroutePoint\<close>

text \<open>
  An element handed to the reroute operations is addressed by the position of its
  connection element on the canvas and its own position among that element's children.
  The point's coordinates come from the pointer position and the zoom; they are an
  argument here.
\<close>

fun set_points :: "point list option \<Rightarrow> out_conn \<Rightarrow> out_conn" where
  "set_points pts (OutConn n p _) = OutConn n p pts"

definition insert_at :: "nat \<Rightarrow> 'a \<Rightarrow> 'a list \<Rightarrow> 'a list" where
  "insert_at i x xs = take i xs @ [x] @ drop i xs"

definition count_main :: "child list \<Rightarrow> nat" where
  "count_main cs = length (filter (\<lambda>c. c = MainPath) cs)"

definition createReroutePoint :: "nat \<Rightarrow> nat \<Rightarrow> point \<Rightarrow> editor \<Rightarrow> unit res" where
  "createReroutePoint ci pi pt s =
     (if \<not> (ci < length (dom_conns s) \<and> pi < length (c_children (dom_conns s ! ci)))
      then Throw TypeError s
      else
        (let parent = dom_conns s ! ci;
             nodeId = c_out parent; nodeUpdateIn = c_in parent;
             output_class = c_outc parent; input_class = c_inc parent;
             numberPoints = count_main (c_children parent);
             with_path = insert_at numberPoints MainPath (c_children parent);
             search_point = (if pi < numberPoints then pi else pi + 1);
             position_add_array_point =
               (if reroute_fix_curvature s \<and> numberPoints \<noteq> 1 then search_point else 0);
             children1 =
               (if reroute_fix_curvature s then
                  (if numberPoints = 1 then with_path @ [Point pt]
                   else insert_at (search_point + numberPoints + 1) (Point pt) with_path)
                else c_children parent @ [Point pt]);
             s1 = s\<lparr>dom_conns := (dom_conns s)[ci := parent\<lparr>c_children := children1\<rparr>]\<rparr>
         in case out_conns (nodeforge s1) (module s1) nodeId output_class of
              None \<Rightarrow> Throw TypeError s1
            | Some conns \<Rightarrow>
                (case findIndex (\<lambda>item. oc_node item = IdStr nodeUpdateIn \<and>
                                   oc_output item = input_class) conns of
                   None \<Rightarrow> Throw TypeError s1
                 | Some k \<Rightarrow>
                     (let pts = (case oc_points (conns ! k) of None \<Rightarrow> [] | Some ps \<Rightarrow> ps);
                          pts1 =
                            (if reroute_fix_curvature s \<and>
                                (position_add_array_point > 0 \<or> pts \<noteq> [])
                             then insert_at position_add_array_point pt pts
                             else pts @ [pt]);
                          s2 = s1\<lparr>nodeforge :=
                                 upd_outputs (module s1) nodeId output_class
                                   (\<lambda>cs. cs[k := set_points (Some pts1) (cs ! k)])
                                   (nodeforge s1)\<rparr>
                      in updateConnectionNodes (''node-'' @ nodeId)
                           (dispatch (AddReroute nodeId) s2)))))"

definition removeReroutePoint :: "nat \<Rightarrow> nat \<Rightarrow> editor \<Rightarrow> unit res" where
  "removeReroutePoint ci pi s =
     (if \<not> (ci < length (dom_conns s) \<and> pi < length (c_children (dom_conns s ! ci)))
      then Throw TypeError s
      else
        (let parent = dom_conns s ! ci;
             nodeId = c_out parent; nodeUpdateIn = c_in parent;
             output_class = c_outc parent; input_class = c_inc parent
         in case out_conns (nodeforge s) (module s) nodeId output_class of
              None \<Rightarrow> Throw TypeError s
            | Some conns \<Rightarrow>
                (let searchConnection = findIndex (\<lambda>item. oc_node item = IdStr nodeUpdateIn \<and>
                                                     oc_output item = input_class) conns;
                     numberMainPath = count_main (c_children parent)
                 in if reroute_fix_curvature s \<and> numberMainPath = 0 then Throw TypeError s
                    else
                      (let children1 =
                             (if reroute_fix_curvature s
                              then splice1 (numberMainPath - 1) (c_children parent)
                              else c_children parent);
                           numberPointPosition =
                             (if reroute_fix_curvature s
                              then (if pi < numberMainPath then 0 else pi - numberMainPath)
                              else pi);
                           children2 =
                             (if reroute_fix_curvature s then
                                (if numberMainPath - 1 < pi then splice1 (pi - 1) children1
                                 else if numberMainPath - 1 = pi then children1
                                 else splice1 pi children1)
                              else splice1 pi children1);
                           s1 = s\<lparr>dom_conns := (dom_conns s)[ci := parent\<lparr>c_children := children1\<rparr>]\<rparr>
                       in case searchConnection of
                            None \<Rightarrow> Throw TypeError s1
                          | Some k \<Rightarrow>
                              (case oc_points (conns ! k) of
                                 None \<Rightarrow> Throw TypeError s1
                               | Some pts \<Rightarrow>
                                   (let s2 = s1\<lparr>nodeforge :=
                                               upd_outputs (module s1) nodeId output_class
                                                 (\<lambda>cs. cs[k := set_points
                                                          (Some (splice1 numberPointPosition pts)) (cs ! k)])
                                                 (nodeforge s1),
                                             dom_conns :=
                                               (dom_conns s)[ci := parent\<lparr>c_children := children2\<rparr>]\<rparr>
                                    in updateConnectionNodes (''node-'' @ nodeId)
                                         (dispatch (RemoveReroute nodeId) s2)))))))"

section \<open>Scenarios\<close>

fun returned :: "'a res \<Rightarrow> 'a option" where
  "returned (Ret v _) = Some v"
| "returned (Throw _ _) = None"

fun thrown :: "'a res \<Rightarrow> js_error option" where
  "thrown (Ret _ _) = None"
| "thrown (Throw e _) = Some e"

text \<open>
  The scenario of the specification: node A with no input and one output at (0,0), node
  B with one input and no output at (200,0), created in this order in a fresh editor.
\<close>

definition node_A_added :: "ident res" where
  "node_A_added = addNode ''A'' 0 1 0 0 [] (JObj []) [] new_editor"

definition node_B_added :: "ident res" where
  "node_B_added = addNode ''B'' 1 0 200 0 [] (JObj []) [] (state_of node_A_added)"

definition two_nodes :: editor where
  "two_nodes = state_of node_B_added"

text \<open>The two nodes connected through the ids \<open>addNode\<close> returned (the numbers 1 and 2).\<close>

definition connected :: "bool res" where
  "connected = addConnection (IdNum 1) (IdNum 2) ''output_1'' ''input_1'' two_nodes"

text \<open>
  Two reroute points added to that connection by two double-clicks on its path, in the
  default rendering mode and in \<open>fix_curvature\<close> mode (where the second click is on the
  second segment).
\<close>

definition rerouted_default :: "unit res" where
  "rerouted_default =
     createReroutePoint 0 0 (20, 20)
       (state_of (createReroutePoint 0 0 (10, 10) ((state_of connected)\<lparr>reroute := True\<rparr>)))"

definition rerouted_fixed :: "unit res" where
  "rerouted_fixed =
     createReroutePoint 0 1 (20, 20)
       (state_of (createReroutePoint 0 0 (10, 10)
          ((state_of connected)\<lparr>reroute := True, reroute_fix_curvature := True\<rparr>)))"

text \<open>A second module next to \<open>Home\<close>, which stays the active one.\<close>

definition with_settings :: editor where
  "with_settings = addModule ''Settings'' two_nodes"

text \<open>\<open>Settings\<close> made the active module, and the editor cleared after that.\<close>

definition settings_active :: "unit res" where
  "settings_active = changeModule ''Settings'' with_settings"

definition cleared :: editor where
  "cleared = clear (state_of settings_active)"

text \<open>
  A node with three inputs (id 1) whose third input is fed by a second node (id 2), after
  its first input was removed: the inputs left are \<open>input_2\<close> and \<open>input_3\<close>.
\<close>

definition sink_and_source :: editor where
  "sink_and_source =
     state_of (addNode ''source'' 0 1 0 0 [] (JObj []) []
       (state_of (addNode ''sink'' 3 0 0 0 [] (JObj []) [] new_editor)))"

definition gap_left :: "unit res" where
  "gap_left =
     removeNodeInput (IdStr ''1'') ''input_1''
       (state_of (addConnection (IdNum 2) (IdNum 1) ''output_1'' ''input_3'' sink_and_source))"













section \<open>The canvas as a projection of the store\<close>

text \<open>
  The records a node holds, port by port: on the input side (input port, peer, peer's
  output port), on the output side (output port, peer, peer's input port). Their numbers
  are the node's incoming and outgoing connections.
\<close>

definition in_records :: "node \<Rightarrow> (string \<times> ident \<times> string) list" where
  "in_records n =
     concat (map (\<lambda>(q, cs). map (\<lambda>c. (q, ic_node c, ic_input c)) cs) (inputs n))"

definition out_records :: "node \<Rightarrow> (string \<times> ident \<times> string) list" where
  "out_records n =
     concat (map (\<lambda>(p, cs). map (\<lambda>c. (p, oc_node c, oc_output c)) cs) (outputs n))"

text \<open>The same two triples as a connection element's classes spell them.\<close>

definition in_triple :: "conn_el \<Rightarrow> string \<times> ident \<times> string" where
  "in_triple e = (c_inc e, IdStr (c_out e), c_outc e)"

definition out_triple :: "conn_el \<Rightarrow> string \<times> ident \<times> string" where
  "out_triple e = (c_outc e, IdStr (c_in e), c_inc e)"

text \<open>
  A node is in sync with the canvas when its records, on each side, are exactly the
  connection elements that name it on that side (with multiplicity), and its port names
  are distinct, as the keys of an object are. The canvas is in sync with the store when
  this holds for every node of the active module, whose keys are distinct as well, and
  every connection element joins two nodes of that module.
\<close>

definition node_in_sync :: "conn_el list \<Rightarrow> string \<Rightarrow> node \<Rightarrow> bool" where
  "node_in_sync els B n =
     (distinct (map fst (inputs n)) \<and> distinct (map fst (outputs n)) \<and>
      mset (in_records n) = mset (map in_triple (filter (\<lambda>e. c_in e = B) els)) \<and>
      mset (out_records n) = mset (map out_triple (filter (\<lambda>e. c_out e = B) els)))"

definition canvas_in_sync :: "editor \<Rightarrow> bool" where
  "canvas_in_sync s =
     (case map_of (nodeforge s) (module s) of
        None \<Rightarrow> False
      | Some d \<Rightarrow>
          distinct (map fst d) \<and>
          list_all (\<lambda>(B, n). node_in_sync (dom_conns s) B n) d \<and>
          list_all (\<lambda>e. map_of d (c_in e) \<noteq> None \<and> map_of d (c_out e) \<noteq> None) (dom_conns s))"

text \<open>The same for every node but \<open>k\<close>, whose own lists the cascade takes apart.\<close>

definition others_in_sync :: "string \<Rightarrow> editor \<Rightarrow> bool" where
  "others_in_sync k s =
     (\<forall>B n. B \<noteq> k \<longrightarrow> get_node (nodeforge s) (module s) B = Some n \<longrightarrow>
            node_in_sync (dom_conns s) B n)"

text \<open>Two stores with the same ports on the same nodes.\<close>

definition same_ports :: "store \<Rightarrow> store \<Rightarrow> bool" where
  "same_ports st st' =
     ((\<forall>m B q. (in_conns st' m B q = None) = (in_conns st m B q = None)) \<and>
      (\<forall>m B p. (out_conns st' m B p = None) = (out_conns st m B p = None)))"

definition ports_present :: "conn_el list \<Rightarrow> editor \<Rightarrow> bool" where
  "ports_present es s =
     (\<forall>e \<in> set es. in_conns (nodeforge s) (module s) (c_in e) (c_inc e) \<noteq> None \<and>
                    out_conns (nodeforge s) (module s) (c_out e) (c_outc e) \<noteq> None)"

text \<open>The event one loop iteration of \<open>removeConnectionNodeId\<close> dispatches.\<close>

definition removed_event :: "conn_el \<Rightarrow> event" where
  "removed_event e = ConnectionRemoved (IdStr (c_out e)) (IdStr (c_in e)) (c_outc e) (c_inc e)"

fun is_removal :: "event \<Rightarrow> bool" where
  "is_removal (ConnectionRemoved _ _ _ _) = True"
| "is_removal _ = False"

text \<open>A node holds a record naming \<open>k\<close> as its peer, on either side.\<close>

definition refers_to :: "string \<Rightarrow> node \<Rightarrow> bool" where
  "refers_to k n = list_ex (\<lambda>(p, i, q). to_string i = k) (in_records n @ out_records n)"

text \<open>
  The connected pair after \<open>removeSingleConnection(1, 2, 'output_1', 'input_1')\<close>, called
  with the numbers as the README does.
\<close>

definition stale_canvas :: "unit res" where
  "stale_canvas =
     removeSingleConnection (IdNum 1) (IdNum 2) ''output_1'' ''input_1'' (state_of connected)"

text \<open>
  Every key is the decimal numeral of a natural below the counter, and the counter has
  not passed \<open>2^53\<close>.
\<close>

definition counter_fresh :: "editor \<Rightarrow> bool" where
  "counter_fresh s =
     (int (nodeId s) \<le> 9007199254740992 \<and>
      list_all (\<lambda>k. k = string_of_nat (digits_val 0 k) \<and> digits_val 0 k < nodeId s)
        (concat (map (\<lambda>(m, d). map fst d) (nodeforge s))))"

text \<open>
  The editors reached from a new one by calls of \<open>addNode\<close> and \<open>addConnection\<close> that
  return, with any arguments, as long as the counter can still advance.
\<close>

inductive built :: "editor \<Rightarrow> bool" where
  built_new: "built new_editor"
| built_node: "built s \<Longrightarrow> int (nodeId s) < 9007199254740992 \<Longrightarrow>
     addNode nm ni no x y c dat h s = Ret r s' \<Longrightarrow> built s'"
| built_conn: "built s \<Longrightarrow> addConnection a b p q s = Ret r s' \<Longrightarrow> built s'"

text \<open>
  What holds of all of them: one module, \<open>Home\<close>, which is active; the canvas in sync
  with it; the counter ahead of its keys.
\<close>

definition home_editor :: "editor \<Rightarrow> bool" where
  "home_editor s =
     (canvas_in_sync s \<and> counter_fresh s \<and> map fst (nodeforge s) = [''Home''] \<and>
      module s = ''Home'')"

section \<open>Properties\<close>

subsection \<open>What the loops leave alone\<close>

lemma for_each_frame:
  assumes "\<And>x s. g (state_of (f x s)) = g s"
  shows "g (state_of (for_each f xs s)) = g s"
proof (induction xs arbitrary: s)
  case Nil
  show ?case by simp
next
  case (Cons x xs)
  show ?case
  proof (cases "f x s")
    case (Ret u s')
    with assms [of x s] Cons.IH [of s'] show ?thesis by simp
  next
    case (Throw e s')
    with assms [of x s] show ?thesis by simp
  qed
qed

lemma updateConnectionNodes_state [simp]: "state_of (updateConnectionNodes d s) = s"
  by (simp add: updateConnectionNodes_def Let_def)

lemma addNodeImport_store [simp]: "nodeforge (state_of (addNodeImport n s)) = nodeforge s"
  by (simp add: addNodeImport_def Let_def)

lemma import_points_store [simp]: "nodeforge (state_of (import_points n p c s)) = nodeforge s"
  by (simp add: import_points_def Let_def split: option.splits)

lemma addRerouteImport_store [simp]: "nodeforge (state_of (addRerouteImport n s)) = nodeforge s"
  unfolding addRerouteImport_def
  by (rule for_each_frame) (simp split: prod.splits)

lemma addNodeImport_emitted [simp]: "emitted (state_of (addNodeImport n s)) = emitted s"
  by (simp add: addNodeImport_def Let_def)

lemma addNodeImport_module [simp]: "module (state_of (addNodeImport n s)) = module s"
  by (simp add: addNodeImport_def Let_def)

lemma import_points_emitted [simp]: "emitted (state_of (import_points n p c s)) = emitted s"
  by (simp add: import_points_def Let_def split: option.splits)

lemma import_points_module [simp]: "module (state_of (import_points n p c s)) = module s"
  by (simp add: import_points_def Let_def split: option.splits)

lemma addRerouteImport_emitted [simp]: "emitted (state_of (addRerouteImport n s)) = emitted s"
  unfolding addRerouteImport_def
  by (rule for_each_frame) (simp split: prod.splits)

lemma addRerouteImport_module [simp]: "module (state_of (addRerouteImport n s)) = module s"
  unfolding addRerouteImport_def
  by (rule for_each_frame) (simp split: prod.splits)

text \<open>
  \<open>load()\<close> touches the canvas and the counter only: a field that the three loops leave
  alone and that does not depend on the counter is what it was.
\<close>

lemma load_frame:
  assumes a: "\<And>n t. g (state_of (addNodeImport n t)) = g t"
      and b: "\<And>n t. g (state_of (addRerouteImport n t)) = g t"
      and c: "\<And>t x. g (t\<lparr>nodeId := x\<rparr>) = g t"
  shows "g (state_of (load s)) = g s"
proof -
  have a': "\<And>xs t. g (state_of (for_each addNodeImport xs t)) = g t"
    by (rule for_each_frame) (rule a)
  have b': "\<And>xs t. g (state_of (for_each addRerouteImport xs t)) = g t"
    by (rule for_each_frame) (rule b)
  have c': "\<And>xs t. g (state_of
              (for_each (\<lambda>k. updateConnectionNodes (''node-'' @ k)) xs t)) = g t"
    by (rule for_each_frame) simp
  show ?thesis
  proof (cases "map_of (nodeforge s) (module s)")
    case None
    then show ?thesis by (simp add: load_def)
  next
    case (Some d)
    show ?thesis
    proof (cases "for_each addNodeImport (map snd d) s")
      case (Throw e s1)
      with Some a' [of "map snd d" s] show ?thesis by (simp add: load_def)
    next
      case r1: (Ret u1 s1)
      with a' [of "map snd d" s] have s1: "g s1 = g s" by simp
      show ?thesis
      proof (cases "if reroute s1 then for_each addRerouteImport (map snd d) s1 else Ret () s1")
        case (Throw e s2)
        moreover from Throw b' [of "map snd d" s1] have "g s2 = g s1"
          by (auto split: if_splits)
        ultimately show ?thesis using Some r1 s1 by (simp add: load_def)
      next
        case r2: (Ret u2 s2)
        from r2 b' [of "map snd d" s1] have s2: "g s2 = g s1"
          by (auto split: if_splits)
        show ?thesis
        proof (cases "for_each (\<lambda>k. updateConnectionNodes (''node-'' @ k)) (map fst d) s2")
          case (Throw e s3)
          with c' [of "map fst d" s2] Some r1 r2 s1 s2 show ?thesis by (simp add: load_def)
        next
          case (Ret u3 s3)
          with c' [of "map fst d" s2] Some r1 r2 s1 s2 c [where t = s3] show ?thesis
            by (simp add: load_def)
        qed
      qed
    qed
  qed
qed

lemma load_store [simp]: "nodeforge (state_of (load s)) = nodeforge s"
  by (rule load_frame) simp_all

lemma load_emitted [simp]: "emitted (state_of (load s)) = emitted s"
  by (rule load_frame) simp_all

lemma load_module [simp]: "module (state_of (load s)) = module s"
  by (rule load_frame) simp_all

lemma load_counter:
  "thrown (load s) = None \<Longrightarrow> nodeId (state_of (load s)) = next_number (nodeforge s)"
proof -
  assume t: "thrown (load s) = None"
  have "\<exists>s3. load s = Ret () (s3\<lparr>nodeId := next_number (nodeforge s3)\<rparr>)"
    using t by (auto simp: load_def split: option.splits res.splits if_splits)
  then obtain s3 where l: "load s = Ret () (s3\<lparr>nodeId := next_number (nodeforge s3)\<rparr>)" ..
  with load_store [of s] have "nodeforge s3 = nodeforge s" by simp
  with l show ?thesis by simp
qed

lemma load_store_and_counter:
  "nodeforge (state_of (load s)) = nodeforge s \<and>
   (thrown (load s) = None \<longrightarrow> nodeId (state_of (load s)) = next_number (nodeforge s))"
  by (simp add: load_counter)

text \<open>
  \<open>changeModule\<close> dispatches one event, and the listener reads the module that was
  active before the call.
\<close>

lemma changeModule_emitted:
  "emitted (state_of (changeModule nm s)) = emitted s @ [(ModuleChanged nm, module s)] \<and>
   module (state_of (changeModule nm s)) = nm"
proof -
  let ?s3 = "(dispatch (ModuleChanged nm) s)\<lparr>module := nm, dom_nodes := [], dom_conns := []\<rparr>"
  let ?s4 = "(clear ?s3)\<lparr>nodeforge := json_copy (nodeforge ?s3)\<rparr>"
  have "changeModule nm s = import_data (nodeforge ?s3) False ?s3"
    by (simp add: changeModule_def Let_def)
  moreover have "state_of (import_data (nodeforge ?s3) False ?s3) = state_of (load ?s4)"
    by (cases "load ?s4") (simp_all add: import_data_def Let_def)
  moreover have "emitted (state_of (load ?s4)) = emitted ?s4"
    and "module (state_of (load ?s4)) = module ?s4"
    by simp_all
  ultimately show ?thesis by (simp add: clear_def dispatch_def)
qed

lemma map_fst_map_entry [simp]: "map fst (AList.map_entry k f al) = map fst al"
  by (induction al) auto

lemma upd_node_keys [simp]: "map fst (upd_node m k f st) = map fst st"
  by (simp add: upd_node_def)

lemma upd_inputs_keys [simp]: "map fst (upd_inputs m k p f st) = map fst st"
  by (simp add: upd_inputs_def)

lemma upd_outputs_keys [simp]: "map fst (upd_outputs m k p f st) = map fst st"
  by (simp add: upd_outputs_def)

lemma remove_out_step_frame:
  "nodeId (state_of (remove_out_step e s)) = nodeId s"
  "module (state_of (remove_out_step e s)) = module s"
  "map fst (nodeforge (state_of (remove_out_step e s))) = map fst (nodeforge s)"
  by (simp_all add: remove_out_step_def Let_def dispatch_def split: option.splits)

lemma remove_in_step_frame:
  "nodeId (state_of (remove_in_step e s)) = nodeId s"
  "module (state_of (remove_in_step e s)) = module s"
  "map fst (nodeforge (state_of (remove_in_step e s))) = map fst (nodeforge s)"
  by (simp_all add: remove_in_step_def Let_def dispatch_def split: option.splits)

lemma removeConnectionNodeId_frame:
  "nodeId (state_of (removeConnectionNodeId i s)) = nodeId s"
  "module (state_of (removeConnectionNodeId i s)) = module s"
  "map fst (nodeforge (state_of (removeConnectionNodeId i s))) = map fst (nodeforge s)"
proof -
  let ?out = "for_each remove_out_step (rev (filter (\<lambda>e. c_out e = to_string i) (dom_conns s))) s"
  have o1: "nodeId (state_of ?out) = nodeId s"
    by (rule for_each_frame) (rule remove_out_step_frame)
  have o2: "module (state_of ?out) = module s"
    by (rule for_each_frame) (rule remove_out_step_frame)
  have o3: "map fst (nodeforge (state_of ?out)) = map fst (nodeforge s)"
    by (rule for_each_frame [where g = "\<lambda>s. map fst (nodeforge s)"]) (rule remove_out_step_frame)
  have i1: "\<And>es t. nodeId (state_of (for_each remove_in_step es t)) = nodeId t"
    by (rule for_each_frame) (rule remove_in_step_frame)
  have i2: "\<And>es t. module (state_of (for_each remove_in_step es t)) = module t"
    by (rule for_each_frame) (rule remove_in_step_frame)
  have i3: "\<And>es t. map fst (nodeforge (state_of (for_each remove_in_step es t)))
              = map fst (nodeforge t)"
    by (rule for_each_frame [where g = "\<lambda>s. map fst (nodeforge s)"]) (rule remove_in_step_frame)
  show "nodeId (state_of (removeConnectionNodeId i s)) = nodeId s"
    using o1 i1 by (cases ?out) (simp_all add: removeConnectionNodeId_def Let_def)
  show "module (state_of (removeConnectionNodeId i s)) = module s"
    using o2 i2 by (cases ?out) (simp_all add: removeConnectionNodeId_def Let_def)
  show "map fst (nodeforge (state_of (removeConnectionNodeId i s))) = map fst (nodeforge s)"
    using o3 i3 by (cases ?out) (simp_all add: removeConnectionNodeId_def Let_def)
qed


subsection \<open>Export and import\<close>

text \<open>
  C3. \<open>export()\<close> returns the stored graph and leaves it in place, and
  \<open>import(export())\<close> ends with a stored graph equal to the one before the export: every
  module, node field, port, connection record and reroute point list, in order. This
  holds for every state, also where \<open>load()\<close> throws after the graph was replaced
  (for instance when the active module is not a module of the graph).
\<close>

theorem import_export_roundtrip:
  "fst (export_data s) = nodeforge s \<and>
   nodeforge (snd (export_data s)) = nodeforge s \<and>
   nodeforge (state_of (import_data (fst (export_data s)) notifi (snd (export_data s))))
     = nodeforge s"
proof -
  let ?s2 = "(clear (snd (export_data s)))\<lparr>nodeforge := json_copy (fst (export_data s))\<rparr>"
  have e: "fst (export_data s) = nodeforge s \<and> nodeforge (snd (export_data s)) = nodeforge s"
    by (simp add: export_data_def json_copy_def Let_def dispatch_def)
  have "nodeforge ?s2 = nodeforge s"
    by (simp add: export_data_def json_copy_def Let_def)
  moreover have "nodeforge (state_of (load ?s2)) = nodeforge ?s2"
    using load_store_and_counter [of ?s2] by blast
  moreover have
    "nodeforge (state_of (import_data (fst (export_data s)) notifi (snd (export_data s))))
      = nodeforge (state_of (load ?s2))"
    by (cases "load ?s2") (simp_all add: import_data_def Let_def dispatch_def)
  ultimately show ?thesis using e by simp
qed

subsection \<open>The id counter\<close>

lemma digit_cases: "d < 10 \<Longrightarrow> d \<in> {0, 1, 2, 3, 4, 5, 6, 7, 8, 9::nat}"
  by auto

lemma digit_char_inverse:
  "d < 10 \<Longrightarrow> digit_val (digit_char d) = d \<and> is_digit (digit_char d)"
  using digit_cases [of d] by (auto simp: digit_char_def digit_val_def is_digit_def)

lemma digits_val_snoc: "digits_val acc (xs @ [c]) = digits_val acc xs * 10 + digit_val c"
  by (induction xs arbitrary: acc) auto

lemma string_of_nat_digits:
  "list_all is_digit (string_of_nat n) \<and> digits_val 0 (string_of_nat n) = n \<and>
   string_of_nat n \<noteq> []"
proof (induction n rule: string_of_nat.induct)
  case (1 n)
  show ?case
  proof (cases "n < 10")
    case True
    then show ?thesis
      using digit_char_inverse [of n] by (simp add: string_of_nat.simps [of n])
  next
    case False
    with 1 digit_char_inverse [of "n mod 10"] show ?thesis
      by (simp add: string_of_nat.simps [of n] digits_val_snoc)
  qed
qed

lemma string_of_nat_inj [simp]: "(string_of_nat x = string_of_nat y) = (x = y)"
  by (metis string_of_nat_digits)

lemma port_names_distinct [simp]: "distinct (port_names pre n)"
  by (simp add: port_names_def distinct_map inj_on_def)



lemma node_id_ident: "list_all name_char k \<Longrightarrow> is_ident (''node-'' @ k)"
  by (simp add: is_ident_def name_char_def name_start_def is_letter_def)




lemma js_succ_exact: "int n < 9007199254740992 \<Longrightarrow> js_succ n = Suc n"
  by (simp add: js_succ_def)
















lemma extractNodeId_node [simp]:
  "extractNodeId (CHR ''n'' # CHR ''o'' # CHR ''d'' # CHR ''e'' # CHR ''-'' # x) = x"
  by (simp add: extractNodeId_def)

lemma inner_fold_module:
  "fold (\<lambda>(nodeKey, _) nm. if loose_eq nodeKey i then Some m else nm) d a
   = (if \<exists>kn \<in> set d. loose_eq (fst kn) i then Some m else a)"
  by (induction d arbitrary: a) (auto split: prod.splits)

lemma getModuleFromNodeId_single:
  "nodeforge s = [(m, d)] \<Longrightarrow>
   getModuleFromNodeId i s = (if \<exists>kn \<in> set d. loose_eq (fst kn) i then Some m else None)"
  by (simp add: getModuleFromNodeId_def inner_fold_module)



text \<open>Writing a property: the key is there afterwards, the others are as before.\<close>

lemma js_update_keys: "set (map fst (js_update k v al)) = insert k (set (map fst al))"
proof (cases "k \<in> set (map fst al)")
  case True
  then show ?thesis by (simp add: js_update_def AList.update_keys insert_absorb)
next
  case False
  let ?P = "\<lambda>kv :: string \<times> 'a. index_below k (fst kv)"
  have "map fst (takeWhile ?P al) @ map fst (dropWhile ?P al) = map fst al"
    by (metis map_append takeWhile_dropWhile_id)
  then have "set (map fst (takeWhile ?P al)) \<union> set (map fst (dropWhile ?P al)) = set (map fst al)"
    by (metis set_append)
  then have "set (map fst (takeWhile ?P al @ (k, v) # dropWhile ?P al)) = insert k (set (map fst al))"
    by auto
  with False show ?thesis by (simp add: js_update_def image_Un)
qed







subsection \<open>Cascade delete\<close>

lemma get_node_upd_node:
  "get_node (upd_node m B f st) m' B' =
     (if m' = m \<and> B' = B then map_option f (get_node st m B) else get_node st m' B')"
  by (auto simp: get_node_def upd_node_def map_of_map_entry split: option.splits)

lemma in_conns_upd_inputs:
  "in_conns (upd_inputs m B q f st) m' B' q' =
     (if m' = m \<and> B' = B \<and> q' = q then map_option f (in_conns st m B q) else in_conns st m' B' q')"
  by (auto simp: in_conns_def upd_inputs_def get_node_upd_node map_of_map_entry split: option.splits)

lemma out_conns_upd_inputs [simp]:
  "out_conns (upd_inputs m B q f st) m' B' p = out_conns st m' B' p"
  by (auto simp: out_conns_def upd_inputs_def get_node_upd_node split: option.splits)

lemma out_conns_upd_outputs:
  "out_conns (upd_outputs m B p f st) m' B' p' =
     (if m' = m \<and> B' = B \<and> p' = p then map_option f (out_conns st m B p) else out_conns st m' B' p')"
  by (auto simp: out_conns_def upd_outputs_def get_node_upd_node map_of_map_entry split: option.splits)

lemma in_conns_upd_outputs [simp]:
  "in_conns (upd_outputs m B p f st) m' B' q = in_conns st m' B' q"
  by (auto simp: in_conns_def upd_outputs_def get_node_upd_node split: option.splits)

lemma findIndex_None: "(findIndex P cs = None) = (\<forall>c \<in> set cs. \<not> P c)"
  by (induction cs) auto

lemma findIndex_Some:
  "findIndex P cs = Some i \<Longrightarrow> i < length cs \<and> P (cs ! i)"
  by (induction cs arbitrary: i) (auto split: if_splits)

lemma mset_splice1:
  "i < length cs \<Longrightarrow> mset (map f (splice1 i cs)) + {#f (cs ! i)#} = mset (map f cs)"
proof -
  assume i: "i < length cs"
  then have "cs = take i cs @ cs ! i # drop (Suc i) cs"
    by (simp add: id_take_nth_drop)
  then have "mset (map f cs) = mset (map f (take i cs @ cs ! i # drop (Suc i) cs))" by simp
  then show ?thesis by (simp add: splice1_def)
qed

lemma in_records_map_entry:
  "map_of al q = Some cs \<Longrightarrow>
   mset (concat (map (\<lambda>(q, cs). map (\<lambda>c. (q, ic_node c, ic_input c)) cs) (AList.map_entry q f al)))
     + mset (map (\<lambda>c. (q, ic_node c, ic_input c)) cs)
   = mset (concat (map (\<lambda>(q, cs). map (\<lambda>c. (q, ic_node c, ic_input c)) cs) al))
     + mset (map (\<lambda>c. (q, ic_node c, ic_input c)) (f cs))"
  by (induction al) (auto split: if_splits)

lemma out_records_map_entry:
  "map_of al p = Some cs \<Longrightarrow>
   mset (concat (map (\<lambda>(p, cs). map (\<lambda>c. (p, oc_node c, oc_output c)) cs) (AList.map_entry p f al)))
     + mset (map (\<lambda>c. (p, oc_node c, oc_output c)) cs)
   = mset (concat (map (\<lambda>(p, cs). map (\<lambda>c. (p, oc_node c, oc_output c)) cs) al))
     + mset (map (\<lambda>c. (p, oc_node c, oc_output c)) (f cs))"
  by (induction al) (auto split: if_splits)

lemma in_records_port:
  "distinct (map fst al) \<Longrightarrow>
   (q, i, p) \<in> set (concat (map (\<lambda>(q, cs). map (\<lambda>c. (q, ic_node c, ic_input c)) cs) al)) \<Longrightarrow>
   \<exists>cs. map_of al q = Some cs \<and> (\<exists>c \<in> set cs. ic_node c = i \<and> ic_input c = p)"
  by (induction al) (auto simp: rev_image_eqI)

lemma out_records_port:
  "distinct (map fst al) \<Longrightarrow>
   (p, i, q) \<in> set (concat (map (\<lambda>(p, cs). map (\<lambda>c. (p, oc_node c, oc_output c)) cs) al)) \<Longrightarrow>
   \<exists>cs. map_of al p = Some cs \<and> (\<exists>c \<in> set cs. oc_node c = i \<and> oc_output c = q)"
  by (induction al) (auto simp: rev_image_eqI)

lemma same_ports_refl [simp]: "same_ports st st"
  by (simp add: same_ports_def)

lemma same_ports_trans: "same_ports a b \<Longrightarrow> same_ports b c \<Longrightarrow> same_ports a c"
  by (simp add: same_ports_def)

lemma same_ports_upd_inputs [simp]: "same_ports st (upd_inputs m B q f st)"
  by (simp add: same_ports_def in_conns_upd_inputs)

lemma same_ports_upd_outputs [simp]: "same_ports st (upd_outputs m B p f st)"
  by (simp add: same_ports_def out_conns_upd_outputs)

lemma get_node_upd_inputs:
  "get_node (upd_inputs m B q f st) m' B' =
     (if m' = m \<and> B' = B
      then map_option (\<lambda>n. n\<lparr>inputs := AList.map_entry q f (inputs n)\<rparr>) (get_node st m B)
      else get_node st m' B')"
  by (simp add: upd_inputs_def get_node_upd_node)

lemma get_node_upd_outputs:
  "get_node (upd_outputs m B p f st) m' B' =
     (if m' = m \<and> B' = B
      then map_option (\<lambda>n. n\<lparr>outputs := AList.map_entry p f (outputs n)\<rparr>) (get_node st m B)
      else get_node st m' B')"
  by (simp add: upd_outputs_def get_node_upd_node)

lemma filter_remove1_in:
  "e \<in> set xs \<Longrightarrow> Q e \<Longrightarrow>
   mset (map f (filter Q (remove1 e xs))) + {#f e#} = mset (map f (filter Q xs))"
  by (induction xs) auto

lemma filter_remove1_out: "\<not> Q e \<Longrightarrow> filter Q (remove1 e xs) = filter Q xs"
  by (induction xs) auto

lemma drop_in_record:
  assumes sync: "node_in_sync els B n" and e: "e \<in> set els" and B: "c_in e = B"
      and nB: "c_out e \<noteq> B"
      and cs: "map_of (inputs n) (c_inc e) = Some cs"
  shows "node_in_sync (remove1 e els) B
           (n\<lparr>inputs := AList.map_entry (c_inc e)
                 (splice_found (findIndex (\<lambda>item. ic_node item = IdStr (c_out e) \<and>
                                             ic_input item = c_outc e) cs))
                 (inputs n)\<rparr>)"
proof -
  let ?P = "\<lambda>item. ic_node item = IdStr (c_out e) \<and> ic_input item = c_outc e"
  let ?tr = "\<lambda>c. (c_inc e, ic_node c, ic_input c)"
  let ?n' = "n\<lparr>inputs := AList.map_entry (c_inc e) (splice_found (findIndex ?P cs)) (inputs n)\<rparr>"
  from sync have d: "distinct (map fst (inputs n))"
    and din: "mset (in_records n) = mset (map in_triple (filter (\<lambda>e. c_in e = B) els))"
    and dout: "mset (out_records n) = mset (map out_triple (filter (\<lambda>e. c_out e = B) els))"
    and d2: "distinct (map fst (outputs n))"
    by (simp_all add: node_in_sync_def)
  from e B have "in_triple e \<in> set (map in_triple (filter (\<lambda>e. c_in e = B) els))" by auto
  then have "in_triple e \<in># mset (in_records n)" using din by (metis set_mset_mset)
  then have "(c_inc e, IdStr (c_out e), c_outc e) \<in> set (in_records n)"
    by (simp add: in_triple_def)
  from in_records_port [OF d this [unfolded in_records_def]] cs
  have "\<exists>c \<in> set cs. ?P c" by auto
  then obtain i where i: "findIndex ?P cs = Some i"
    using findIndex_None [of ?P cs] by (cases "findIndex ?P cs") auto
  from findIndex_Some [OF i] have il: "i < length cs" and Pi: "?P (cs ! i)" by auto
  have tri: "?tr (cs ! i) = in_triple e" using Pi by (simp add: in_triple_def)
  have "mset (in_records ?n') + mset (map ?tr cs) = mset (in_records n) + mset (map ?tr (splice1 i cs))"
    using in_records_map_entry [OF cs, of "splice_found (findIndex ?P cs)"] i
    by (simp add: in_records_def splice_found_def)
  also have "mset (map ?tr cs) = mset (map ?tr (splice1 i cs)) + {#in_triple e#}"
    using mset_splice1 [OF il, of ?tr] tri by simp
  finally have "mset (in_records ?n') + {#in_triple e#} = mset (in_records n)"
    by simp
  also have "\<dots> = mset (map in_triple (filter (\<lambda>e. c_in e = B) (remove1 e els))) + {#in_triple e#}"
    using din filter_remove1_in [OF e, of "\<lambda>e. c_in e = B" in_triple] B by simp
  finally have a: "mset (in_records ?n') = mset (map in_triple (filter (\<lambda>e. c_in e = B) (remove1 e els)))"
    by simp
  from nB have "filter (\<lambda>e. c_out e = B) (remove1 e els) = filter (\<lambda>e. c_out e = B) els"
    by (simp add: filter_remove1_out)
  with a d d2 dout show ?thesis by (simp add: node_in_sync_def out_records_def)
qed

lemma drop_out_record:
  assumes sync: "node_in_sync els S n" and e: "e \<in> set els" and S: "c_out e = S"
      and nS: "c_in e \<noteq> S"
      and cs: "map_of (outputs n) (c_outc e) = Some cs"
  shows "node_in_sync (remove1 e els) S
           (n\<lparr>outputs := AList.map_entry (c_outc e)
                 (splice_found (findIndex (\<lambda>item. oc_node item = IdStr (c_in e) \<and>
                                             oc_output item = c_inc e) cs))
                 (outputs n)\<rparr>)"
proof -
  let ?P = "\<lambda>item. oc_node item = IdStr (c_in e) \<and> oc_output item = c_inc e"
  let ?tr = "\<lambda>c. (c_outc e, oc_node c, oc_output c)"
  let ?n' = "n\<lparr>outputs := AList.map_entry (c_outc e) (splice_found (findIndex ?P cs)) (outputs n)\<rparr>"
  from sync have d: "distinct (map fst (inputs n))"
    and din: "mset (in_records n) = mset (map in_triple (filter (\<lambda>e. c_in e = S) els))"
    and dout: "mset (out_records n) = mset (map out_triple (filter (\<lambda>e. c_out e = S) els))"
    and d2: "distinct (map fst (outputs n))"
    by (simp_all add: node_in_sync_def)
  from e S have "out_triple e \<in> set (map out_triple (filter (\<lambda>e. c_out e = S) els))" by auto
  then have "out_triple e \<in># mset (out_records n)" using dout by (metis set_mset_mset)
  then have "(c_outc e, IdStr (c_in e), c_inc e) \<in> set (out_records n)"
    by (simp add: out_triple_def)
  from out_records_port [OF d2 this [unfolded out_records_def]] cs
  have "\<exists>c \<in> set cs. ?P c" by auto
  then obtain i where i: "findIndex ?P cs = Some i"
    using findIndex_None [of ?P cs] by (cases "findIndex ?P cs") auto
  from findIndex_Some [OF i] have il: "i < length cs" and Pi: "?P (cs ! i)" by auto
  have tri: "?tr (cs ! i) = out_triple e" using Pi by (simp add: out_triple_def)
  have "mset (out_records ?n') + mset (map ?tr cs) = mset (out_records n) + mset (map ?tr (splice1 i cs))"
    using out_records_map_entry [OF cs, of "splice_found (findIndex ?P cs)"] i
    by (simp add: out_records_def splice_found_def)
  also have "mset (map ?tr cs) = mset (map ?tr (splice1 i cs)) + {#out_triple e#}"
    using mset_splice1 [OF il, of ?tr] tri by simp
  finally have "mset (out_records ?n') + {#out_triple e#} = mset (out_records n)"
    by simp
  also have "\<dots> = mset (map out_triple (filter (\<lambda>e. c_out e = S) (remove1 e els))) + {#out_triple e#}"
    using dout filter_remove1_in [OF e, of "\<lambda>e. c_out e = S" out_triple] S by simp
  finally have a: "mset (out_records ?n') = mset (map out_triple (filter (\<lambda>e. c_out e = S) (remove1 e els)))"
    by simp
  from nS have "filter (\<lambda>e. c_in e = S) (remove1 e els) = filter (\<lambda>e. c_in e = S) els"
    by (simp add: filter_remove1_out)
  with a d d2 din show ?thesis by (simp add: node_in_sync_def in_records_def)
qed

lemma untouched_in_sync:
  "node_in_sync els B n \<Longrightarrow> c_in e \<noteq> B \<Longrightarrow> c_out e \<noteq> B \<Longrightarrow> node_in_sync (remove1 e els) B n"
  by (simp add: node_in_sync_def filter_remove1_out)

lemma remove_out_step_sync:
  assumes I: "others_in_sync k s" and ek: "c_out e = k"
      and ein: "c_in e \<noteq> k \<Longrightarrow> e \<in> set (dom_conns s)"
      and pin: "in_conns (nodeforge s) (module s) (c_in e) (c_inc e) \<noteq> None"
      and pout: "out_conns (nodeforge s) (module s) (c_out e) (c_outc e) \<noteq> None"
  shows "\<exists>s'. remove_out_step e s = Ret () s' \<and> others_in_sync k s' \<and>
          emitted s' = emitted s @ [(removed_event e, module s)] \<and>
          dom_conns s' = remove1 e (dom_conns s) \<and> module s' = module s \<and>
          dom_nodes s' = dom_nodes s \<and> same_ports (nodeforge s) (nodeforge s')"
proof -
  let ?m = "module s"
  from pin obtain ics where ics: "in_conns (nodeforge s) ?m (c_in e) (c_inc e) = Some ics" by auto
  let ?fi = "splice_found (findIndex (\<lambda>item. ic_node item = IdStr (c_out e) \<and>
                                         ic_input item = c_outc e) ics)"
  let ?st1 = "upd_inputs ?m (c_in e) (c_inc e) ?fi (nodeforge s)"
  from pout obtain ocs where ocs: "out_conns ?st1 ?m (c_out e) (c_outc e) = Some ocs" by auto
  let ?fo = "splice_found (findIndex (\<lambda>item. oc_node item = IdStr (c_in e) \<and>
                                         oc_output item = c_inc e) ocs)"
  let ?st2 = "upd_outputs ?m (c_out e) (c_outc e) ?fo ?st1"
  let ?s' = "dispatch (removed_event e) (s\<lparr>nodeforge := ?st2, dom_conns := remove1 e (dom_conns s)\<rparr>)"
  have r: "remove_out_step e s = Ret () ?s'"
    using ics ocs by (simp add: remove_out_step_def Let_def removed_event_def)
  have sp: "same_ports (nodeforge s) (nodeforge ?s')"
    by (rule same_ports_trans [of _ ?st1]) (simp_all add: dispatch_def)
  have sync: "others_in_sync k ?s'"
    unfolding others_in_sync_def
  proof (intro allI impI)
    fix B n'
    assume Bk: "B \<noteq> k" and g: "get_node (nodeforge ?s') (module ?s') B = Some n'"
    from g Bk ek have g1: "get_node ?st1 ?m B = Some n'"
      by (simp add: dispatch_def get_node_upd_outputs)
    show "node_in_sync (dom_conns ?s') B n'"
    proof (cases "c_in e = B")
      case True
      from g1 True obtain n where n: "get_node (nodeforge s) ?m B = Some n"
        and n': "n' = n\<lparr>inputs := AList.map_entry (c_inc e) ?fi (inputs n)\<rparr>"
        by (auto simp: get_node_upd_inputs)
      from I Bk n have ns: "node_in_sync (dom_conns s) B n" by (simp add: others_in_sync_def)
      from ics n True have cs: "map_of (inputs n) (c_inc e) = Some ics" by (simp add: in_conns_def)
      from True Bk ein have e: "e \<in> set (dom_conns s)" by simp
      from ek Bk have "c_out e \<noteq> B" by simp
      from drop_in_record [OF ns e True this cs] show ?thesis
        by (simp add: dispatch_def n')
    next
      case False
      with g1 have n: "get_node (nodeforge s) ?m B = Some n'" by (simp add: get_node_upd_inputs)
      from I Bk n have ns: "node_in_sync (dom_conns s) B n'" by (simp add: others_in_sync_def)
      from ek Bk have "c_out e \<noteq> B" by simp
      from untouched_in_sync [OF ns False this] show ?thesis by (simp add: dispatch_def)
    qed
  qed
  show ?thesis
    using r sync sp by (intro exI [of _ ?s']) (simp add: dispatch_def)
qed

lemma remove_in_step_sync:
  assumes I: "others_in_sync k s" and ek: "c_in e = k"
      and ein: "c_out e \<noteq> k \<Longrightarrow> e \<in> set (dom_conns s)"
      and pin: "in_conns (nodeforge s) (module s) (c_in e) (c_inc e) \<noteq> None"
      and pout: "out_conns (nodeforge s) (module s) (c_out e) (c_outc e) \<noteq> None"
  shows "\<exists>s'. remove_in_step e s = Ret () s' \<and> others_in_sync k s' \<and>
          emitted s' = emitted s @ [(removed_event e, module s)] \<and>
          dom_conns s' = remove1 e (dom_conns s) \<and> module s' = module s \<and>
          dom_nodes s' = dom_nodes s \<and> same_ports (nodeforge s) (nodeforge s')"
proof -
  let ?m = "module s"
  from pout obtain ocs where ocs: "out_conns (nodeforge s) ?m (c_out e) (c_outc e) = Some ocs" by auto
  let ?fo = "splice_found (findIndex (\<lambda>item. oc_node item = IdStr (c_in e) \<and>
                                         oc_output item = c_inc e) ocs)"
  let ?st1 = "upd_outputs ?m (c_out e) (c_outc e) ?fo (nodeforge s)"
  from pin obtain ics where ics: "in_conns ?st1 ?m (c_in e) (c_inc e) = Some ics" by auto
  let ?fi = "splice_found (findIndex (\<lambda>item. ic_node item = IdStr (c_out e) \<and>
                                         ic_input item = c_outc e) ics)"
  let ?st2 = "upd_inputs ?m (c_in e) (c_inc e) ?fi ?st1"
  let ?s' = "dispatch (removed_event e) (s\<lparr>nodeforge := ?st2, dom_conns := remove1 e (dom_conns s)\<rparr>)"
  have r: "remove_in_step e s = Ret () ?s'"
    using ics ocs by (simp add: remove_in_step_def Let_def removed_event_def)
  have sp: "same_ports (nodeforge s) (nodeforge ?s')"
    by (rule same_ports_trans [of _ ?st1]) (simp_all add: dispatch_def)
  have sync: "others_in_sync k ?s'"
    unfolding others_in_sync_def
  proof (intro allI impI)
    fix B n'
    assume Bk: "B \<noteq> k" and g: "get_node (nodeforge ?s') (module ?s') B = Some n'"
    from g Bk ek have g1: "get_node ?st1 ?m B = Some n'"
      by (simp add: dispatch_def get_node_upd_inputs)
    show "node_in_sync (dom_conns ?s') B n'"
    proof (cases "c_out e = B")
      case True
      from g1 True obtain n where n: "get_node (nodeforge s) ?m B = Some n"
        and n': "n' = n\<lparr>outputs := AList.map_entry (c_outc e) ?fo (outputs n)\<rparr>"
        by (auto simp: get_node_upd_outputs)
      from I Bk n have ns: "node_in_sync (dom_conns s) B n" by (simp add: others_in_sync_def)
      from ocs n True have cs: "map_of (outputs n) (c_outc e) = Some ocs" by (simp add: out_conns_def)
      from True Bk ein have e: "e \<in> set (dom_conns s)" by simp
      from ek Bk have "c_in e \<noteq> B" by simp
      from drop_out_record [OF ns e True this cs] show ?thesis
        by (simp add: dispatch_def n')
    next
      case False
      with g1 have n: "get_node (nodeforge s) ?m B = Some n'" by (simp add: get_node_upd_outputs)
      from I Bk n have ns: "node_in_sync (dom_conns s) B n'" by (simp add: others_in_sync_def)
      from ek Bk have "c_in e \<noteq> B" by simp
      from untouched_in_sync [OF ns this False] show ?thesis by (simp add: dispatch_def)
    qed
  qed
  show ?thesis
    using r sync sp by (intro exI [of _ ?s']) (simp add: dispatch_def)
qed

lemma sub_mset_step:
  assumes "mset (filter P (e # es)) \<subseteq># mset xs"
  shows "mset (filter P es) \<subseteq># mset (remove1 e xs)"
proof (cases "P e")
  case True
  with assms show ?thesis by (simp add: insert_subset_eq_iff)
next
  case False
  then have "e \<notin># mset (filter P es)" by simp
  moreover from False assms have "mset (filter P es) \<subseteq># mset xs" by simp
  ultimately show ?thesis
    unfolding mset_remove1
    by (metis Diff_eq_empty_iff_mset diff_empty insert_DiffM minus_add_mset_if_not_in_lhs)
qed

lemma ports_present_same:
  "ports_present es s \<Longrightarrow> same_ports (nodeforge s) (nodeforge s') \<Longrightarrow> module s' = module s \<Longrightarrow>
   ports_present es s'"
  by (simp add: ports_present_def same_ports_def)

lemma out_loop_sync:
  assumes "others_in_sync k s" and "\<forall>e \<in> set es. c_out e = k"
      and "mset (filter (\<lambda>e. c_in e \<noteq> k) es) \<subseteq># mset (dom_conns s)"
      and "ports_present es s"
  shows "\<exists>s'. for_each remove_out_step es s = Ret () s' \<and> others_in_sync k s' \<and>
          emitted s' = emitted s @ map (\<lambda>e. (removed_event e, module s)) es \<and>
          mset (dom_conns s') = mset (dom_conns s) - mset es \<and> module s' = module s \<and>
          dom_nodes s' = dom_nodes s \<and> same_ports (nodeforge s) (nodeforge s')"
  using assms
proof (induction es arbitrary: s)
  case Nil
  then show ?case by simp
next
  case (Cons e es)
  from Cons.prems(3) have ein: "c_in e \<noteq> k \<Longrightarrow> e \<in> set (dom_conns s)"
    by (auto dest: mset_subset_eqD)
  from Cons.prems(4) have p: "in_conns (nodeforge s) (module s) (c_in e) (c_inc e) \<noteq> None"
      "out_conns (nodeforge s) (module s) (c_out e) (c_outc e) \<noteq> None"
    by (simp_all add: ports_present_def)
  from Cons.prems(2) have ek: "c_out e = k" by simp
  from remove_out_step_sync [OF Cons.prems(1) ek ein p] obtain s1 where
    r: "remove_out_step e s = Ret () s1" and i1: "others_in_sync k s1"
    and e1: "emitted s1 = emitted s @ [(removed_event e, module s)]"
    and d1: "dom_conns s1 = remove1 e (dom_conns s)" and m1: "module s1 = module s"
    and n1: "dom_nodes s1 = dom_nodes s" and sp1: "same_ports (nodeforge s) (nodeforge s1)"
    by blast
  from Cons.prems(2) have a2: "\<forall>e \<in> set es. c_out e = k" by simp
  from sub_mset_step [OF Cons.prems(3)] d1
  have a3: "mset (filter (\<lambda>e. c_in e \<noteq> k) es) \<subseteq># mset (dom_conns s1)" by simp
  from Cons.prems(4) have "ports_present es s" by (simp add: ports_present_def)
  from ports_present_same [OF this sp1 m1] have a4: "ports_present es s1" .
  from Cons.IH [OF i1 a2 a3 a4] obtain s' where
    r': "for_each remove_out_step es s1 = Ret () s'" and i': "others_in_sync k s'"
    and e': "emitted s' = emitted s1 @ map (\<lambda>e. (removed_event e, module s1)) es"
    and d': "mset (dom_conns s') = mset (dom_conns s1) - mset es" and m': "module s' = module s1"
    and n': "dom_nodes s' = dom_nodes s1" and sp': "same_ports (nodeforge s1) (nodeforge s')"
    by blast
  have "for_each remove_out_step (e # es) s = Ret () s'" using r r' by simp
  moreover have "emitted s' = emitted s @ map (\<lambda>e. (removed_event e, module s)) (e # es)"
    using e' e1 m1 by simp
  moreover have "mset (dom_conns s') = mset (dom_conns s) - mset (e # es)"
    using d' d1 by simp
  moreover note i' same_ports_trans [OF sp1 sp']
  ultimately show ?case using m' m1 n' n1 by (intro exI [of _ s']) simp
qed

lemma in_loop_sync:
  assumes "others_in_sync k s" and "\<forall>e \<in> set es. c_in e = k"
      and "mset (filter (\<lambda>e. c_out e \<noteq> k) es) \<subseteq># mset (dom_conns s)"
      and "ports_present es s"
  shows "\<exists>s'. for_each remove_in_step es s = Ret () s' \<and> others_in_sync k s' \<and>
          emitted s' = emitted s @ map (\<lambda>e. (removed_event e, module s)) es \<and>
          mset (dom_conns s') = mset (dom_conns s) - mset es \<and> module s' = module s \<and>
          dom_nodes s' = dom_nodes s \<and> same_ports (nodeforge s) (nodeforge s')"
  using assms
proof (induction es arbitrary: s)
  case Nil
  then show ?case by simp
next
  case (Cons e es)
  from Cons.prems(3) have ein: "c_out e \<noteq> k \<Longrightarrow> e \<in> set (dom_conns s)"
    by (auto dest: mset_subset_eqD)
  from Cons.prems(4) have p: "in_conns (nodeforge s) (module s) (c_in e) (c_inc e) \<noteq> None"
      "out_conns (nodeforge s) (module s) (c_out e) (c_outc e) \<noteq> None"
    by (simp_all add: ports_present_def)
  from Cons.prems(2) have ek: "c_in e = k" by simp
  from remove_in_step_sync [OF Cons.prems(1) ek ein p] obtain s1 where
    r: "remove_in_step e s = Ret () s1" and i1: "others_in_sync k s1"
    and e1: "emitted s1 = emitted s @ [(removed_event e, module s)]"
    and d1: "dom_conns s1 = remove1 e (dom_conns s)" and m1: "module s1 = module s"
    and n1: "dom_nodes s1 = dom_nodes s" and sp1: "same_ports (nodeforge s) (nodeforge s1)"
    by blast
  from Cons.prems(2) have a2: "\<forall>e \<in> set es. c_in e = k" by simp
  from sub_mset_step [OF Cons.prems(3)] d1
  have a3: "mset (filter (\<lambda>e. c_out e \<noteq> k) es) \<subseteq># mset (dom_conns s1)" by simp
  from Cons.prems(4) have "ports_present es s" by (simp add: ports_present_def)
  from ports_present_same [OF this sp1 m1] have a4: "ports_present es s1" .
  from Cons.IH [OF i1 a2 a3 a4] obtain s' where
    r': "for_each remove_in_step es s1 = Ret () s'" and i': "others_in_sync k s'"
    and e': "emitted s' = emitted s1 @ map (\<lambda>e. (removed_event e, module s1)) es"
    and d': "mset (dom_conns s') = mset (dom_conns s1) - mset es" and m': "module s' = module s1"
    and n': "dom_nodes s' = dom_nodes s1" and sp': "same_ports (nodeforge s1) (nodeforge s')"
    by blast
  have "for_each remove_in_step (e # es) s = Ret () s'" using r r' by simp
  moreover have "emitted s' = emitted s @ map (\<lambda>e. (removed_event e, module s)) (e # es)"
    using e' e1 m1 by simp
  moreover have "mset (dom_conns s') = mset (dom_conns s) - mset (e # es)"
    using d' d1 by simp
  moreover note i' same_ports_trans [OF sp1 sp']
  ultimately show ?case using m' m1 n' n1 by (intro exI [of _ s']) simp
qed

lemma in_sync_others: "canvas_in_sync s \<Longrightarrow> others_in_sync k s"
  by (auto simp: canvas_in_sync_def others_in_sync_def get_node_def list_all_iff
      split: option.splits dest!: map_of_SomeD)

lemma in_sync_node:
  "canvas_in_sync s \<Longrightarrow> get_node (nodeforge s) (module s) B = Some n \<Longrightarrow>
   node_in_sync (dom_conns s) B n"
  by (auto simp: canvas_in_sync_def get_node_def list_all_iff
      split: option.splits dest!: map_of_SomeD)

lemma in_sync_ports:
  assumes "canvas_in_sync s"
  shows "ports_present (dom_conns s) s"
  unfolding ports_present_def
proof (intro ballI conjI)
  fix e assume e: "e \<in> set (dom_conns s)"
  from assms obtain d where d: "map_of (nodeforge s) (module s) = Some d"
    by (auto simp: canvas_in_sync_def split: option.splits)
  from assms d e obtain ni no where ni: "map_of d (c_in e) = Some ni" and no: "map_of d (c_out e) = Some no"
    by (auto simp: canvas_in_sync_def list_all_iff)
  from ni d have gi: "get_node (nodeforge s) (module s) (c_in e) = Some ni" by (simp add: get_node_def)
  from no d have go: "get_node (nodeforge s) (module s) (c_out e) = Some no" by (simp add: get_node_def)
  from in_sync_node [OF assms gi] have si: "node_in_sync (dom_conns s) (c_in e) ni" .
  from in_sync_node [OF assms go] have so: "node_in_sync (dom_conns s) (c_out e) no" .
  from e have "in_triple e \<in> set (map in_triple (filter (\<lambda>x. c_in x = c_in e) (dom_conns s)))" by auto
  then have "in_triple e \<in># mset (in_records ni)" using si by (metis node_in_sync_def set_mset_mset)
  then have "(c_inc e, IdStr (c_out e), c_outc e) \<in> set (in_records ni)" by (simp add: in_triple_def)
  from in_records_port [OF _ this [unfolded in_records_def]] si
  have "map_of (inputs ni) (c_inc e) \<noteq> None" by (auto simp: node_in_sync_def)
  with gi show "in_conns (nodeforge s) (module s) (c_in e) (c_inc e) \<noteq> None"
    by (simp add: in_conns_def)
  from e have "out_triple e \<in> set (map out_triple (filter (\<lambda>x. c_out x = c_out e) (dom_conns s)))" by auto
  then have "out_triple e \<in># mset (out_records no)" using so by (metis node_in_sync_def set_mset_mset)
  then have "(c_outc e, IdStr (c_in e), c_inc e) \<in> set (out_records no)" by (simp add: out_triple_def)
  from out_records_port [OF _ this [unfolded out_records_def]] so
  have "map_of (outputs no) (c_outc e) \<noteq> None" by (auto simp: node_in_sync_def)
  with go show "out_conns (nodeforge s) (module s) (c_out e) (c_outc e) \<noteq> None"
    by (simp add: out_conns_def)
qed

lemma ports_present_subset: "ports_present es s \<Longrightarrow> set xs \<subseteq> set es \<Longrightarrow> ports_present xs s"
  by (auto simp: ports_present_def)

lemma removeConnectionNodeId_sync:
  assumes sync: "canvas_in_sync s" and plain: "list_all name_char k"
  shows "\<exists>s'. removeConnectionNodeId (IdStr k) s = Ret () s' \<and> others_in_sync k s' \<and>
          emitted s' = emitted s @ map (\<lambda>e. (removed_event e, module s))
             (rev (filter (\<lambda>e. c_out e = k) (dom_conns s)) @ rev (filter (\<lambda>e. c_in e = k) (dom_conns s))) \<and>
          mset (dom_conns s') = mset (filter (\<lambda>e. c_out e \<noteq> k \<and> c_in e \<noteq> k) (dom_conns s)) \<and>
          module s' = module s \<and> dom_nodes s' = dom_nodes s"
proof -
  let ?es1 = "rev (filter (\<lambda>e. c_out e = k) (dom_conns s))"
  let ?es2 = "rev (filter (\<lambda>e. c_in e = k) (dom_conns s))"
  note pp = in_sync_ports [OF sync]
  have p1: "ports_present ?es1 s" by (rule ports_present_subset [OF pp]) auto
  have p2: "ports_present ?es2 s" by (rule ports_present_subset [OF pp]) auto
  have sub1: "mset (filter (\<lambda>e. c_in e \<noteq> k) ?es1) \<subseteq># mset (dom_conns s)"
    by (rule mset_subset_eqI) simp
  from out_loop_sync [OF in_sync_others [OF sync] _ sub1 p1] obtain s1 where
    r1: "for_each remove_out_step ?es1 s = Ret () s1" and i1: "others_in_sync k s1"
    and e1: "emitted s1 = emitted s @ map (\<lambda>e. (removed_event e, module s)) ?es1"
    and d1: "mset (dom_conns s1) = mset (dom_conns s) - mset ?es1" and m1: "module s1 = module s"
    and n1: "dom_nodes s1 = dom_nodes s" and sp1: "same_ports (nodeforge s) (nodeforge s1)"
    by auto
  have d1': "mset (dom_conns s1) = mset (filter (\<lambda>e. c_out e \<noteq> k) (dom_conns s))"
    unfolding d1 by (rule multiset_eqI) simp
  have sub2: "mset (filter (\<lambda>e. c_out e \<noteq> k) ?es2) \<subseteq># mset (dom_conns s1)"
    unfolding d1' by (simp add: mset_subset_eq_count subseteq_mset_def)
  from ports_present_same [OF p2 sp1 m1] have p2': "ports_present ?es2 s1" .
  from in_loop_sync [OF i1 _ sub2 p2'] obtain s2 where
    r2: "for_each remove_in_step ?es2 s1 = Ret () s2" and i2: "others_in_sync k s2"
    and e2: "emitted s2 = emitted s1 @ map (\<lambda>e. (removed_event e, module s1)) ?es2"
    and d2: "mset (dom_conns s2) = mset (dom_conns s1) - mset ?es2" and m2: "module s2 = module s1"
    and n2: "dom_nodes s2 = dom_nodes s1"
    by auto
  have d2': "mset (dom_conns s2) = mset (filter (\<lambda>e. c_out e \<noteq> k \<and> c_in e \<noteq> k) (dom_conns s))"
    unfolding d2 d1' by (rule multiset_eqI) simp
  have "removeConnectionNodeId (IdStr k) s = Ret () s2"
    using r1 r2 plain by (simp add: removeConnectionNodeId_def)
  with i2 e1 e2 d2' m1 m2 n1 n2 show ?thesis by (intro exI [of _ s2]) simp
qed

lemma get_node_delete:
  "get_node (AList.map_entry m (AList.delete k) st) m' B =
     (if m' = m \<and> B = k then None else get_node st m' B)"
  by (auto simp: get_node_def map_of_map_entry AList.delete_conv' split: option.splits)

lemma in_sync_no_reference:
  assumes sync: "node_in_sync els B n"
      and els: "\<forall>e \<in> set els. c_out e \<noteq> k \<and> c_in e \<noteq> k"
  shows "\<not> refers_to k n"
proof
  assume "refers_to k n"
  then obtain p i q where t: "(p, i, q) \<in> set (in_records n) \<union> set (out_records n)"
      and i: "to_string i = k"
    by (auto simp: refers_to_def list_ex_iff)
  from t show False
  proof
    assume "(p, i, q) \<in> set (in_records n)"
    then have "(p, i, q) \<in># mset (map in_triple (filter (\<lambda>e. c_in e = B) els))"
      using sync by (metis node_in_sync_def set_mset_mset)
    then obtain e where "e \<in> set els" and "(p, i, q) = in_triple e" by auto
    with els i show False by (auto simp: in_triple_def)
  next
    assume "(p, i, q) \<in> set (out_records n)"
    then have "(p, i, q) \<in># mset (map out_triple (filter (\<lambda>e. c_out e = B) els))"
      using sync by (metis node_in_sync_def set_mset_mset)
    then obtain e where "e \<in> set els" and "(p, i, q) = out_triple e" by auto
    with els i show False by (auto simp: out_triple_def)
  qed
qed

text \<open>The module \<open>getModuleFromNodeId\<close> finds is one of the store, and it finds one for a key.\<close>

lemma module_fold_result:
  "fold (\<lambda>(moduleName, d) nameModule.
           fold (\<lambda>(nodeKey, _) nm. if loose_eq nodeKey i then Some moduleName else nm)
             d nameModule) st a = r \<Longrightarrow>
   r = a \<or> (\<exists>m \<in> fst ` set st. r = Some m)"
proof (induction st arbitrary: a)
  case Nil
  then show ?case by simp
next
  case (Cons md st)
  obtain m d where md: "md = (m, d)" by (cases md)
  let ?a = "if \<exists>kn \<in> set d. loose_eq (fst kn) i then Some m else a"
  from Cons.prems have "fold (\<lambda>(moduleName, d) nameModule.
           fold (\<lambda>(nodeKey, _) nm. if loose_eq nodeKey i then Some moduleName else nm)
             d nameModule) st ?a = r"
    by (simp add: md inner_fold_module)
  from Cons.IH [OF this] show ?case by (auto simp: md split: if_splits)
qed

lemma module_fold_found:
  "\<exists>(m, d) \<in> set st. \<exists>kn \<in> set d. loose_eq (fst kn) i \<Longrightarrow>
   fold (\<lambda>(moduleName, d) nameModule.
           fold (\<lambda>(nodeKey, _) nm. if loose_eq nodeKey i then Some moduleName else nm)
             d nameModule) st a \<noteq> None"
proof (induction st arbitrary: a)
  case Nil
  then show ?case by simp
next
  case (Cons md st)
  obtain m d where md: "md = (m, d)" by (cases md)
  let ?f = "\<lambda>(moduleName, d) nameModule.
           fold (\<lambda>(nodeKey, _) nm. if loose_eq nodeKey i then Some moduleName else nm)
             d nameModule"
  let ?a = "if \<exists>kn \<in> set d. loose_eq (fst kn) i then Some m else a"
  have step: "fold ?f (md # st) a = fold ?f st ?a"
    by (simp add: md inner_fold_module)
  show ?case
  proof (cases "\<exists>(m, d) \<in> set st. \<exists>kn \<in> set d. loose_eq (fst kn) i")
    case True
    from Cons.IH [OF this] step show ?thesis by simp
  next
    case False
    with Cons.prems md have here: "\<exists>kn \<in> set d. loose_eq (fst kn) i" by auto
    from module_fold_result [of i st ?a "fold ?f st ?a"] here
    have "fold ?f st ?a \<noteq> None" by auto
    with step show ?thesis by simp
  qed
qed

lemma getModuleFromNodeId_key:
  assumes "get_node (nodeforge s) m k = Some n"
  shows "\<exists>m' \<in> fst ` set (nodeforge s). getModuleFromNodeId (IdStr k) s = Some m'"
proof -
  from assms obtain d where d: "map_of (nodeforge s) m = Some d" and k: "map_of d k = Some n"
    by (auto simp: get_node_def split: option.splits)
  from d have "(m, d) \<in> set (nodeforge s)" by (rule map_of_SomeD)
  moreover from k have "(k, n) \<in> set d" by (rule map_of_SomeD)
  then have "\<exists>kn \<in> set d. loose_eq (fst kn) (IdStr k)" by force
  ultimately have "\<exists>(m, d) \<in> set (nodeforge s). \<exists>kn \<in> set d. loose_eq (fst kn) (IdStr k)"
    by blast
  from module_fold_found [OF this, of None]
  have "getModuleFromNodeId (IdStr k) s \<noteq> None" by (simp add: getModuleFromNodeId_def)
  with module_fold_result [of "IdStr k" "nodeforge s" None "getModuleFromNodeId (IdStr k) s"]
  show ?thesis by (auto simp: getModuleFromNodeId_def)
qed

text \<open>
  The cascade on a canvas that is in sync with the store. Removing a node of the active
  module that has \<open>n\<close> outgoing and \<open>m\<close> incoming connections returns normally,
  dispatches exactly \<open>n + m\<close> \<open>connectionRemoved\<close> events and then \<open>nodeRemoved\<close>, and
  leaves no other node of the module with a record that names the removed id. The
  node's own record is deleted from the module \<open>getModuleFromNodeId\<close> finds for the id,
  which is the active one unless a later module holds the same key.
\<close>

lemma cascade_in_sync:
  assumes sync: "canvas_in_sync s"
      and nk: "get_node (nodeforge s) (module s) k = Some nk"
      and plain: "list_all name_char k"
  shows "\<exists>evs s'. removeNodeId (''node-'' @ k) s = Ret () s' \<and>
           emitted s' = emitted s @ map (\<lambda>ev. (ev, module s)) (evs @ [NodeRemoved k]) \<and>
           length evs = length (out_records nk) + length (in_records nk) \<and>
           list_all is_removal evs \<and>
           (getModuleFromNodeId (IdStr k) s = Some (module s) \<longrightarrow>
              get_node (nodeforge s') (module s') k = None) \<and>
           (\<forall>B n. B \<noteq> k \<longrightarrow> get_node (nodeforge s') (module s') B = Some n \<longrightarrow>
                  \<not> refers_to k n)"
proof -
  let ?es = "rev (filter (\<lambda>e. c_out e = k) (dom_conns s)) @ rev (filter (\<lambda>e. c_in e = k) (dom_conns s))"
  from removeConnectionNodeId_sync [OF sync plain] obtain s1 where
    r1: "removeConnectionNodeId (IdStr k) s = Ret () s1" and i1: "others_in_sync k s1"
    and e1: "emitted s1 = emitted s @ map (\<lambda>e. (removed_event e, module s)) ?es"
    and d1: "mset (dom_conns s1) = mset (filter (\<lambda>e. c_out e \<noteq> k \<and> c_in e \<noteq> k) (dom_conns s))"
    and m1: "module s1 = module s"
    by blast
  from removeConnectionNodeId_frame(3) [of "IdStr k" s] r1
  have keys: "map fst (nodeforge s1) = map fst (nodeforge s)" by simp
  from getModuleFromNodeId_key [OF nk] obtain M where
    M: "M \<in> fst ` set (nodeforge s)" and gM: "getModuleFromNodeId (IdStr k) s = Some M"
    by blast
  from M have "M \<in> fst ` set (nodeforge s1)"
    using keys by (metis list.set_map)
  then obtain d1 where md: "map_of (nodeforge s1) M = Some d1"
    by (metis map_of_eq_None_iff not_Some_eq)
  from node_id_ident [OF plain]
  have ident: "is_ident (CHR ''n'' # CHR ''o'' # CHR ''d'' # CHR ''e'' # CHR ''-'' # k)" by simp
  let ?s2 = "s1\<lparr>dom_nodes := remove_first (\<lambda>e. el_id e = ''node-'' @ k) (dom_nodes s1)\<rparr>"
  let ?s' = "dispatch (NodeRemoved k)
               (?s2\<lparr>nodeforge := AList.map_entry M (AList.delete k) (nodeforge ?s2)\<rparr>)"
  have r: "removeNodeId (''node-'' @ k) s = Ret () ?s'"
    using r1 gM md ident by (simp add: removeNodeId_def Let_def)
  let ?evs = "map removed_event ?es"
  have ev: "emitted ?s' = emitted s @ map (\<lambda>ev. (ev, module s)) (?evs @ [NodeRemoved k])"
    using e1 m1 by (simp add: dispatch_def comp_def)
  from in_sync_node [OF sync nk]
  have "mset (out_records nk) = mset (map out_triple (filter (\<lambda>e. c_out e = k) (dom_conns s)))"
    and "mset (in_records nk) = mset (map in_triple (filter (\<lambda>e. c_in e = k) (dom_conns s)))"
    by (simp_all add: node_in_sync_def)
  then have "length (out_records nk) = length (filter (\<lambda>e. c_out e = k) (dom_conns s))"
    and "length (in_records nk) = length (filter (\<lambda>e. c_in e = k) (dom_conns s))"
    by (metis length_map size_mset)+
  then have len: "length ?evs = length (out_records nk) + length (in_records nk)" by simp
  have rem: "list_all is_removal ?evs"
    by (auto simp: list_all_iff removed_event_def)
  have gone: "getModuleFromNodeId (IdStr k) s = Some (module s) \<longrightarrow>
                get_node (nodeforge ?s') (module ?s') k = None"
    using m1 gM by (simp add: dispatch_def get_node_delete)
  have els: "\<forall>e \<in> set (dom_conns s1). c_out e \<noteq> k \<and> c_in e \<noteq> k"
  proof
    fix e assume "e \<in> set (dom_conns s1)"
    then have "e \<in># mset (dom_conns s1)" by simp
    then show "c_out e \<noteq> k \<and> c_in e \<noteq> k" unfolding d1 by simp
  qed
  have clean: "\<forall>B n. B \<noteq> k \<longrightarrow> get_node (nodeforge ?s') (module ?s') B = Some n \<longrightarrow>
                 \<not> refers_to k n"
  proof (intro allI impI)
    fix B n assume Bk: "B \<noteq> k" and g: "get_node (nodeforge ?s') (module ?s') B = Some n"
    then have g1: "get_node (nodeforge s1) (module s1) B = Some n"
      using m1 by (auto simp: dispatch_def get_node_delete split: if_splits)
    from i1 Bk g1 have "node_in_sync (dom_conns s1) B n" by (simp add: others_in_sync_def)
    from in_sync_no_reference [OF this els] show "\<not> refers_to k n" .
  qed
  from r ev len rem gone clean show ?thesis by blast
qed

text \<open>
  C5 fails at the README's calls. After \<open>removeSingleConnection(1, 2, 'output_1',
  'input_1')\<close> with the numeric ids the connection element is gone, but both records are
  still stored: the guarded \<open>splice\<close> compares the stored \<open>'2'\<close> with the number 2 by
  \<open>===\<close>. Node 1 then has one outgoing connection, yet \<open>removeNodeId('node-1')\<close>, which
  looks for the connections on the canvas, dispatches no \<open>connectionRemoved\<close> before
  \<open>nodeRemoved\<close>, and node 2 keeps its record naming node 1.
\<close>

theorem removeNodeId_stale_canvas:
  "returned stale_canvas = Some () \<and>
   map_option out_records (get_node (nodeforge (state_of stale_canvas)) ''Home'' ''1'')
     = Some [(''output_1'', IdStr ''2'', ''input_1'')] \<and>
   dom_conns (state_of stale_canvas) = [] \<and>
   returned (removeNodeId ''node-1'' (state_of stale_canvas)) = Some () \<and>
   emitted (state_of (removeNodeId ''node-1'' (state_of stale_canvas)))
     = emitted (state_of stale_canvas) @ [(NodeRemoved ''1'', ''Home'')] \<and>
   in_conns (nodeforge (state_of (removeNodeId ''node-1'' (state_of stale_canvas))))
     ''Home'' ''2'' ''input_1''
     = Some [InConn (IdStr ''1'') ''output_1'']"
  by code_simp

subsection \<open>Editors built by addNode and addConnection\<close>

text \<open>
  \<open>addNode\<close> and \<open>addConnection\<close> keep the canvas in sync with the store, so the
  cascade starts from such a canvas in every editor built with them.
\<close>

lemma in_records_outputs [simp]: "in_records (n\<lparr>outputs := x\<rparr>) = in_records n"
  by (simp add: in_records_def)

lemma out_records_inputs [simp]: "out_records (n\<lparr>inputs := x\<rparr>) = out_records n"
  by (simp add: out_records_def)

lemma out_records_push:
  "map_of (outputs n) p = Some cs \<Longrightarrow>
   mset (out_records (n\<lparr>outputs := AList.map_entry p (\<lambda>cs. cs @ [c]) (outputs n)\<rparr>))
     = mset (out_records n) + {#(p, oc_node c, oc_output c)#}"
  using out_records_map_entry [of "outputs n" p cs "\<lambda>cs. cs @ [c]"]
  by (simp add: out_records_def)

lemma in_records_push:
  "map_of (inputs n) q = Some cs \<Longrightarrow>
   mset (in_records (n\<lparr>inputs := AList.map_entry q (\<lambda>cs. cs @ [c]) (inputs n)\<rparr>))
     = mset (in_records n) + {#(q, ic_node c, ic_input c)#}"
  using in_records_map_entry [of "inputs n" q cs "\<lambda>cs. cs @ [c]"]
  by (simp add: in_records_def)

lemma push_out_sync:
  assumes "node_in_sync els X n" and "map_of (outputs n) (c_outc e) = Some cs"
      and "c_out e = X" and "c_in e \<noteq> X"
  shows "node_in_sync (els @ [e]) X
           (n\<lparr>outputs := AList.map_entry (c_outc e)
                 (\<lambda>cs. cs @ [OutConn (IdStr (c_in e)) (c_inc e) None]) (outputs n)\<rparr>)"
  using assms by (simp add: node_in_sync_def out_records_push out_triple_def map_fst_map_entry)

lemma push_in_sync:
  assumes "node_in_sync els X n" and "map_of (inputs n) (c_inc e) = Some cs"
      and "c_in e = X" and "c_out e \<noteq> X"
  shows "node_in_sync (els @ [e]) X
           (n\<lparr>inputs := AList.map_entry (c_inc e)
                 (\<lambda>cs. cs @ [InConn (IdStr (c_out e)) (c_outc e)]) (inputs n)\<rparr>)"
  using assms by (simp add: node_in_sync_def in_records_push in_triple_def map_fst_map_entry)

lemma push_both_sync:
  assumes s: "node_in_sync els X n" and i: "map_of (inputs n) (c_inc e) = Some cs"
      and out: "map_of (outputs n) (c_outc e) = Some cs'"
      and X: "c_in e = X" "c_out e = X"
  shows "node_in_sync (els @ [e]) X
           (n\<lparr>outputs := AList.map_entry (c_outc e)
                 (\<lambda>cs. cs @ [OutConn (IdStr (c_in e)) (c_inc e) None]) (outputs n),
              inputs := AList.map_entry (c_inc e)
                 (\<lambda>cs. cs @ [InConn (IdStr (c_out e)) (c_outc e)]) (inputs n)\<rparr>)"
proof -
  let ?n1 = "n\<lparr>outputs := AList.map_entry (c_outc e)
                 (\<lambda>cs. cs @ [OutConn (IdStr (c_in e)) (c_inc e) None]) (outputs n)\<rparr>"
  have a: "mset (out_records ?n1) = mset (out_records n) + {#out_triple e#}"
    using out_records_push [OF out] by (simp add: out_triple_def)
  have "map_of (inputs ?n1) (c_inc e) = Some cs" using i by simp
  from in_records_push [OF this, of "InConn (IdStr (c_out e)) (c_outc e)"]
  have b: "mset (in_records (?n1\<lparr>inputs := AList.map_entry (c_inc e)
                 (\<lambda>cs. cs @ [InConn (IdStr (c_out e)) (c_outc e)]) (inputs n)\<rparr>))
           = mset (in_records n) + {#in_triple e#}"
    by (simp add: in_triple_def)
  show ?thesis using s a b X by (simp add: node_in_sync_def)
qed

lemma push_none_sync:
  "node_in_sync els X n \<Longrightarrow> c_in e \<noteq> X \<Longrightarrow> c_out e \<noteq> X \<Longrightarrow> node_in_sync (els @ [e]) X n"
  by (simp add: node_in_sync_def)


lemma updateConnectionNodes_Ret: "updateConnectionNodes d s = Ret u s2 \<Longrightarrow> s2 = s"
  by (simp add: updateConnectionNodes_def Let_def split: if_splits)

lemma getNodeFromId_Ret:
  "getNodeFromId i s = Ret n s0 \<Longrightarrow>
   get_node (nodeforge s) (prop_key (getModuleFromNodeId i s)) (to_string i) = Some n"
  by (simp add: getNodeFromId_def get_node_def split: option.splits)

lemma addConnection_True:
  assumes "addConnection a b p q s = Ret True s'"
      and "getModuleFromNodeId a s = Some (module s)"
  shows "\<exists>nA csA csB.
           get_node (nodeforge s) (module s) (to_string a) = Some nA \<and>
           map_of (outputs nA) p = Some csA \<and>
           in_conns (nodeforge s) (module s) (to_string b) q = Some csB \<and>
           s' = dispatch (ConnectionCreated a b p q)
                  (s\<lparr>nodeforge :=
                       upd_inputs (module s) (to_string b) q
                         (\<lambda>cs. cs @ [InConn (IdStr (to_string a)) p])
                         (upd_outputs (module s) (to_string a) p
                            (\<lambda>cs. cs @ [OutConn (IdStr (to_string b)) q None]) (nodeforge s)),
                     dom_conns := dom_conns s @
                       [\<lparr>c_in = to_string b, c_out = to_string a, c_outc = p, c_inc = q,
                         c_children = [MainPath]\<rparr>]\<rparr>)"
proof -
  have b: "getModuleFromNodeId b s = Some (module s)"
  proof (rule ccontr)
    assume "getModuleFromNodeId b s \<noteq> Some (module s)"
    with assms show False by (simp add: addConnection_def)
  qed
  show ?thesis
    using assms b
    by (auto simp: addConnection_def Let_def dispatch_def
        split: if_splits option.splits res.splits
        dest!: updateConnectionNodes_Ret getNodeFromId_Ret)
qed


lemma map_entry_distinct:
  "distinct (map fst al) \<Longrightarrow>
   AList.map_entry k f al = map (\<lambda>(x, v). (x, if x = k then f v else v)) al"
proof (induction al)
  case Nil
  show ?case by simp
next
  case (Cons xv al)
  obtain x v where xv: "xv = (x, v)" by (cases xv)
  show ?case
  proof (cases "x = k")
    case True
    with Cons.prems xv have "k \<notin> fst ` set al" by simp
    then have "map (\<lambda>(x, v). (x, if x = k then f v else v)) al = al"
      by (intro map_idI) (auto simp: rev_image_eqI)
    with True xv show ?thesis by simp
  next
    case False
    with Cons xv show ?thesis by simp
  qed
qed

lemma map_of_map_entry_None [simp]:
  "(map_of (AList.map_entry k f al) x = None) = (map_of al x = None)"
  by (simp add: map_of_map_entry split: option.splits)

lemma addConnection_keeps_sync:
  assumes sync: "canvas_in_sync s" and fresh: "counter_fresh s"
      and act: "getModuleFromNodeId a s = Some (module s)"
      and ret: "addConnection a b p q s = Ret True s'"
  shows "canvas_in_sync s'"
proof -
  let ?A = "to_string a" and ?B = "to_string b"
  let ?e = "\<lparr>c_in = ?B, c_out = ?A, c_outc = p, c_inc = q, c_children = [MainPath]\<rparr>"
  let ?fA = "\<lambda>n. n\<lparr>outputs := AList.map_entry p
                       (\<lambda>cs. cs @ [OutConn (IdStr ?B) q None]) (outputs n)\<rparr>"
  let ?fB = "\<lambda>n. n\<lparr>inputs := AList.map_entry q
                       (\<lambda>cs. cs @ [InConn (IdStr ?A) p]) (inputs n)\<rparr>"
  let ?g = "\<lambda>X n. if X = ?B then ?fB (if X = ?A then ?fA n else n)
                   else if X = ?A then ?fA n else n"
  from addConnection_True [OF ret act] obtain nA csA csB
    where nA: "get_node (nodeforge s) (module s) ?A = Some nA"
      and csA: "map_of (outputs nA) p = Some csA"
      and csB: "in_conns (nodeforge s) (module s) ?B q = Some csB"
      and s': "s' = dispatch (ConnectionCreated a b p q)
                  (s\<lparr>nodeforge :=
                       upd_inputs (module s) ?B q (\<lambda>cs. cs @ [InConn (IdStr ?A) p])
                         (upd_outputs (module s) ?A p
                            (\<lambda>cs. cs @ [OutConn (IdStr ?B) q None]) (nodeforge s)),
                     dom_conns := dom_conns s @ [?e]\<rparr>)"
    by blast
  from sync obtain d where d: "map_of (nodeforge s) (module s) = Some d"
    and dist: "distinct (map fst d)"
    and nodes: "\<forall>(X, n) \<in> set d. node_in_sync (dom_conns s) X n"
    and ends: "\<forall>e \<in> set (dom_conns s). map_of d (c_in e) \<noteq> None \<and> map_of d (c_out e) \<noteq> None"
    by (auto simp: canvas_in_sync_def list_all_iff split: option.splits)
  from nA d have dA: "map_of d ?A = Some nA" by (simp add: get_node_def)
  from csB d obtain nB where dB: "map_of d ?B = Some nB" and cB: "map_of (inputs nB) q = Some csB"
    by (auto simp: in_conns_def get_node_def split: option.splits)
  let ?d2 = "AList.map_entry ?B ?fB (AList.map_entry ?A ?fA d)"
  have st2: "map_of (nodeforge s') (module s') = Some ?d2"
    using d by (simp add: s' dispatch_def upd_inputs_def upd_outputs_def upd_node_def
        map_of_map_entry)
  have d2: "?d2 = map (\<lambda>(X, n). (X, ?g X n)) d"
    using dist by (simp add: map_entry_distinct o_def split_def)
  have els: "dom_conns s' = dom_conns s @ [?e]" by (simp add: s' dispatch_def)
  have one: "node_in_sync (dom_conns s @ [?e]) X (?g X n)" if Xn: "(X, n) \<in> set d" for X n
  proof -
    from nodes Xn have sy: "node_in_sync (dom_conns s) X n" by auto
    from Xn dist have look: "map_of d X = Some n" by simp
    show ?thesis
    proof (cases "X = ?A")
      case True
      with look dA have n: "n = nA" by simp
      show ?thesis
      proof (cases "X = ?B")
        case XB: True
        with look dB have "n = nB" by simp
        with push_both_sync [of "dom_conns s" X n ?e csB csA] sy n csA cB True XB
        show ?thesis by simp
      next
        case XB: False
        with push_out_sync [of "dom_conns s" X n ?e csA] sy n csA True
        show ?thesis by simp
      qed
    next
      case False
      show ?thesis
      proof (cases "X = ?B")
        case XB: True
        with look dB have "n = nB" by simp
        with push_in_sync [of "dom_conns s" X n ?e csB] sy cB False XB
        show ?thesis by simp
      next
        case XB: False
        with push_none_sync [of "dom_conns s" X n ?e] sy False
        show ?thesis by simp
      qed
    qed
  qed
  have all: "list_all (\<lambda>(X, n). node_in_sync (dom_conns s') X n) ?d2"
    unfolding d2 els using one by (auto simp: list_all_iff)
  have ends': "list_all (\<lambda>e. map_of ?d2 (c_in e) \<noteq> None \<and> map_of ?d2 (c_out e) \<noteq> None)
                 (dom_conns s')"
    unfolding els using ends dA dB by (auto simp: list_all_iff)
  from st2 all ends' dist show ?thesis
    by (simp add: canvas_in_sync_def)
qed


lemma js_update_fresh_set:
  "k \<notin> set (map fst al) \<Longrightarrow> set (js_update k v al) = insert (k, v) (set al)"
proof -
  have "set (takeWhile P al) \<union> set (dropWhile P al) = set al" for P :: "string \<times> 'a \<Rightarrow> bool"
    by (metis set_append takeWhile_dropWhile_id)
  then show "k \<notin> set (map fst al) \<Longrightarrow> set (js_update k v al) = insert (k, v) (set al)"
    by (auto simp: js_update_def)
qed

lemma js_update_distinct:
  assumes "distinct (map fst al)"
  shows "distinct (map fst (js_update k v al))"
proof (cases "k \<in> set (map fst al)")
  case True
  with assms show ?thesis by (simp add: js_update_def AList.distinct_update)
next
  case False
  let ?P = "\<lambda>kv :: string \<times> 'a. index_below k (fst kv)"
  have split: "map fst (takeWhile ?P al) @ map fst (dropWhile ?P al) = map fst al"
    by (metis map_append takeWhile_dropWhile_id)
  with assms have d: "distinct (map fst (takeWhile ?P al) @ map fst (dropWhile ?P al))"
    by simp
  from split False
  have k: "k \<notin> set (map fst (takeWhile ?P al)) \<union> set (map fst (dropWhile ?P al))"
    by (metis set_append)
  from d k have "distinct (map fst (takeWhile ?P al @ (k, v) # dropWhile ?P al))"
    by auto
  with False assms show ?thesis by (simp add: js_update_def)
qed

lemma empty_ports_records:
  "concat (map (\<lambda>(q, cs). map (f q) cs) (map (\<lambda>p. (p, [])) ps)) = []"
  by (induction ps) auto

lemma new_node_in_sync:
  assumes "\<forall>e \<in> set els. c_in e \<noteq> k \<and> c_out e \<noteq> k"
      and "inputs n = map (\<lambda>p. (p, [])) (port_names pre ni)"
      and "outputs n = map (\<lambda>p. (p, [])) (port_names pre' no)"
  shows "node_in_sync els k n"
proof -
  from assms(1) have "filter (\<lambda>e. c_in e = k) els = []" "filter (\<lambda>e. c_out e = k) els = []"
    by (auto simp: filter_empty_conv)
  moreover have "in_records n = []"
    using empty_ports_records [of "\<lambda>q c. (q, ic_node c, ic_input c)"]
    by (simp add: in_records_def assms(2))
  moreover have "out_records n = []"
    using empty_ports_records [of "\<lambda>q c. (q, oc_node c, oc_output c)"]
    by (simp add: out_records_def assms(3))
  ultimately show ?thesis
    by (simp add: node_in_sync_def assms(2,3) o_def)
qed

lemma addNode_home_editor:
  assumes inv: "home_editor s" and lt: "int (nodeId s) < 9007199254740992"
      and ret: "addNode nm ni no x y c dat h s = Ret r s'"
  shows "home_editor s'"
proof -
  let ?k = "string_of_nat (nodeId s)"
  from inv obtain d where st: "nodeforge s = [(''Home'', d)]" and m: "module s = ''Home''"
    by (cases "nodeforge s") (auto simp: home_editor_def)
  from inv st m have dist: "distinct (map fst d)"
    and nodes: "\<forall>(X, n) \<in> set d. node_in_sync (dom_conns s) X n"
    and ends: "\<forall>e \<in> set (dom_conns s). map_of d (c_in e) \<noteq> None \<and> map_of d (c_out e) \<noteq> None"
    and fresh: "\<forall>k \<in> fst ` set d. k = string_of_nat (digits_val 0 k) \<and> digits_val 0 k < nodeId s"
    by (auto simp: home_editor_def canvas_in_sync_def counter_fresh_def list_all_iff)
  have nk: "?k \<notin> set (map fst d)"
  proof
    assume "?k \<in> set (map fst d)"
    with fresh have "digits_val 0 ?k < nodeId s" by auto
    then show False by (simp add: string_of_nat_digits)
  qed
  then have none: "map_of d ?k = None" by (simp add: map_of_eq_None_iff)
  let ?json = "\<lparr>node_id = IdNum (nodeId s), name = nm, data = dat, css_class = c, html = h,
                typenode = False,
                inputs = map (\<lambda>p. (p, [])) (port_names ''input_'' ni),
                outputs = map (\<lambda>p. (p, [])) (port_names ''output_'' no),
                pos_x = x, pos_y = y\<rparr>"
  let ?d' = "js_update ?k ?json d"
  from ret st m lt have st': "nodeforge s' = [(''Home'', ?d')]"
    and m': "module s' = ''Home''" and els: "dom_conns s' = dom_conns s"
    and n': "nodeId s' = Suc (nodeId s)"
    by (auto simp: addNode_def Let_def dispatch_def js_succ_exact split: if_splits)
  have set': "set ?d' = insert (?k, ?json) (set d)"
    by (rule js_update_fresh_set [OF nk])
  have dist': "distinct (map fst ?d')"
    by (rule js_update_distinct [OF dist])
  have keys': "set (map fst ?d') = insert ?k (set (map fst d))"
    by (rule js_update_keys)
  from ends none have away: "\<forall>e \<in> set (dom_conns s). c_in e \<noteq> ?k \<and> c_out e \<noteq> ?k"
    by auto
  have new: "node_in_sync (dom_conns s) ?k ?json"
    by (rule new_node_in_sync [OF away]) simp_all
  have ends': "\<forall>e \<in> set (dom_conns s). map_of ?d' (c_in e) \<noteq> None \<and> map_of ?d' (c_out e) \<noteq> None"
  proof
    fix e assume "e \<in> set (dom_conns s)"
    with ends have "c_in e \<in> set (map fst d)" "c_out e \<in> set (map fst d)"
      by (auto simp: map_of_eq_None_iff)
    with keys' have "c_in e \<in> set (map fst ?d')" "c_out e \<in> set (map fst ?d')"
      by auto
    then show "map_of ?d' (c_in e) \<noteq> None \<and> map_of ?d' (c_out e) \<noteq> None"
      by (simp add: map_of_eq_None_iff)
  qed
  have sync: "canvas_in_sync s'"
    using dist' nodes new ends'
    by (auto simp: canvas_in_sync_def st' m' els list_all_iff set')
  have "\<forall>k \<in> set (map fst ?d'). k = string_of_nat (digits_val 0 k) \<and> digits_val 0 k < Suc (nodeId s)"
    unfolding keys' using fresh by (auto simp: string_of_nat_digits less_Suc_eq)
  with lt have "counter_fresh s'"
    by (simp add: counter_fresh_def st' n' list_all_iff)
  with sync show ?thesis by (simp add: home_editor_def st' m')
qed

lemma addConnection_False: "addConnection a b p q s = Ret False s' \<Longrightarrow> s' = s"
  by (auto simp: addConnection_def Let_def
      split: if_splits option.splits res.splits dest!: updateConnectionNodes_Ret)

lemma addConnection_home_module:
  assumes st: "nodeforge s = [(''Home'', d)]" and ret: "addConnection a b p q s = Ret True s'"
  shows "getModuleFromNodeId a s = Some ''Home''"
proof (rule ccontr)
  assume "getModuleFromNodeId a s \<noteq> Some ''Home''"
  with getModuleFromNodeId_single [OF st, of a] have n: "getModuleFromNodeId a s = None"
    by (simp split: if_splits)
  have "getNodeFromId a s = Throw TypeError s"
    by (simp add: getNodeFromId_def n st)
  with ret n show False
    by (simp add: addConnection_def Let_def split: if_splits)
qed

lemma addConnection_home_editor:
  assumes inv: "home_editor s" and ret: "addConnection a b p q s = Ret r s'"
  shows "home_editor s'"
proof (cases r)
  case False
  with ret inv show ?thesis by (auto dest: addConnection_False)
next
  case True
  from inv obtain d where st: "nodeforge s = [(''Home'', d)]" and m: "module s = ''Home''"
    by (cases "nodeforge s") (auto simp: home_editor_def)
  from ret True have ret': "addConnection a b p q s = Ret True s'" by simp
  from addConnection_home_module [OF st ret'] m
  have act: "getModuleFromNodeId a s = Some (module s)" by simp
  from inv have "canvas_in_sync s" and "counter_fresh s" by (simp_all add: home_editor_def)
  from addConnection_keeps_sync [OF this act ret'] have sync: "canvas_in_sync s'" .
  from addConnection_True [OF ret' act] st m
  have n: "nodeId s' = nodeId s"
    and keys: "map (\<lambda>(m, d). map fst d) (nodeforge s') = map (\<lambda>(m, d). map fst d) (nodeforge s)"
    and ms: "map fst (nodeforge s') = [''Home'']" "module s' = ''Home''"
    by (auto simp: dispatch_def upd_inputs_def upd_outputs_def upd_node_def)
  from inv have "counter_fresh s'"
    by (simp add: home_editor_def counter_fresh_def n keys cong: option.case_cong)
  with sync ms show ?thesis by (simp add: home_editor_def)
qed

lemma home_editor_new: "home_editor new_editor"
  by (simp add: home_editor_def new_editor_def canvas_in_sync_def counter_fresh_def)

lemma built_home_editor: "built s \<Longrightarrow> home_editor s"
  by (induction rule: built.induct)
    (auto intro: home_editor_new addNode_home_editor addConnection_home_editor)

lemma built_in_sync: "built s \<Longrightarrow> canvas_in_sync s"
  using built_home_editor by (simp add: home_editor_def)

subsection \<open>Clearing the editor\<close>

lemma map_of_js_update_same: "map_of (js_update k v al) k = Some v"
proof (cases "k \<in> set (map fst al)")
  case True
  then show ?thesis by (simp add: js_update_def AList.update_conv')
next
  case False
  let ?P = "\<lambda>kv :: string \<times> 'a. index_below k (fst kv)"
  have "set (takeWhile ?P al) \<subseteq> set al" by (auto dest: set_takeWhileD)
  with False have "k \<notin> fst ` set (takeWhile ?P al)" by auto
  then have "map_of (takeWhile ?P al) k = None" by (simp add: map_of_eq_None_iff)
  then have "map_of (takeWhile ?P al @ (k, v) # dropWhile ?P al) k = Some v"
    by (simp add: map_of_append map_add_def)
  moreover from False have "map_of al k = None" by (simp add: map_of_eq_None_iff)
  ultimately show ?thesis using False by (simp add: js_update_def map_of_append map_add_def)
qed

lemma load_empty_module:
  "map_of (nodeforge s) (module s) = Some [] \<Longrightarrow> thrown (load s) = None"
  by (simp add: load_def)

lemma import_data_frame:
  "nodeforge (state_of (import_data dat notifi s)) = dat \<and>
   module (state_of (import_data dat notifi s)) = module s"
proof -
  let ?s2 = "(clear s)\<lparr>nodeforge := json_copy dat\<rparr>"
  have "nodeforge (state_of (load ?s2)) = dat" "module (state_of (load ?s2)) = module s"
    by (simp_all add: json_copy_def clear_def)
  then show ?thesis
    by (cases "load ?s2") (simp_all add: import_data_def Let_def dispatch_def)
qed

text \<open>
  C10, as the code has it. \<open>clear()\<close> resets the store to the single module \<open>Home\<close> with
  empty data and leaves the active-module field as it was; so when a module other than
  \<open>Home\<close> was active, the field names no module of the store right after the call. What
  ends this is a module stored under that name, not a call of \<open>import\<close> or
  \<open>changeModule\<close> as such. \<open>addModule\<close> with the active name stores an empty module
  under it. \<open>import\<close> keeps the field and stores its argument, whether it returns or
  throws, so the field names a module afterwards only if the argument has one of that
  name. \<open>changeModule\<close> sets the field to its argument and keeps the store, whether it
  returns or throws, so the field names a module afterwards only for \<open>Home\<close>, with
  which it returns.
\<close>

theorem clear_leaves_module_dangling:
  "nodeforge (clear s) = [(''Home'', [])] \<and> module (clear s) = module s \<and>
   (module s \<noteq> ''Home'' \<longrightarrow> map_of (nodeforge (clear s)) (module (clear s)) = None) \<and>
   (module s \<noteq> ''__proto__'' \<longrightarrow>
      map_of (nodeforge (addModule (module s) (clear s)))
        (module (addModule (module s) (clear s))) = Some []) \<and>
   nodeforge (state_of (import_data dat notifi (clear s))) = dat \<and>
   module (state_of (import_data dat notifi (clear s))) = module s \<and>
   nodeforge (state_of (changeModule nm (clear s))) = [(''Home'', [])] \<and>
   module (state_of (changeModule nm (clear s))) = nm \<and>
   (nm = ''Home'' \<longrightarrow> thrown (changeModule nm (clear s)) = None)"
proof -
  have c: "nodeforge (clear s) = [(''Home'', [])] \<and> module (clear s) = module s \<and>
      (module s \<noteq> ''Home'' \<longrightarrow> map_of (nodeforge (clear s)) (module (clear s)) = None)"
    by (simp add: clear_def)
  have a: "module s \<noteq> ''__proto__'' \<longrightarrow>
      map_of (nodeforge (addModule (module s) (clear s)))
        (module (addModule (module s) (clear s))) = Some []"
    by (simp add: addModule_def dispatch_def clear_def map_of_js_update_same)
  have i: "nodeforge (state_of (import_data dat notifi (clear s))) = dat \<and>
      module (state_of (import_data dat notifi (clear s))) = module s"
    using import_data_frame [of dat notifi "clear s"] by (simp add: clear_def)
  let ?s3 = "(dispatch (ModuleChanged nm) (clear s))\<lparr>module := nm, dom_nodes := [], dom_conns := []\<rparr>"
  have cm: "changeModule nm (clear s) = import_data [(''Home'', [])] False ?s3"
    by (simp add: changeModule_def Let_def dispatch_def clear_def)
  have m1: "nodeforge (state_of (changeModule nm (clear s))) = [(''Home'', [])] \<and>
      module (state_of (changeModule nm (clear s))) = nm"
    unfolding cm using import_data_frame [of "[(''Home'', [])]" False ?s3] by simp
  have m3: "nm = ''Home'' \<longrightarrow> thrown (changeModule nm (clear s)) = None"
  proof
    assume h: "nm = ''Home''"
    let ?s4 = "(clear ?s3)\<lparr>nodeforge := json_copy [(''Home'', [])]\<rparr>"
    have "map_of (nodeforge ?s4) (module ?s4) = Some []"
      by (simp add: h json_copy_def clear_def)
    from load_empty_module [OF this] show "thrown (changeModule nm (clear s)) = None"
      unfolding cm by (cases "load ?s4") (simp_all add: import_data_def Let_def)
  qed
  from c a i m1 m3 show ?thesis by blast
qed

theorem clear_leaves_module_dangling_witness:
  "module cleared = ''Settings'' \<and>
   map_of (nodeforge cleared) (module cleared) = None \<and>
   map_of (nodeforge (addModule ''Settings'' cleared)) (module (addModule ''Settings'' cleared))
     = Some [] \<and>
   thrown (changeModule ''Home'' cleared) = None"
proof -
  let ?s = "state_of settings_active"
  have h1: "module ?s = ''Settings''" by code_simp
  from clear_leaves_module_dangling [of ?s "[(''Home'', [])]" True "''Home''"] h1
  show ?thesis by (simp add: cleared_def)
qed

text \<open>
  The claim as stated fails on both sides of its \<open>until\<close>. With \<open>Settings\<close> active and
  the editor cleared, \<open>addModule('Settings')\<close> makes the field name a stored module
  though neither \<open>changeModule\<close> nor \<open>import\<close> was called; and after
  \<open>import({Home: {}})\<close> or \<open>changeModule('Settings')\<close>, which both throw, the field
  still names no module of the store.
\<close>

theorem clear_dangling_not_until_import:
  "module cleared = ''Settings'' \<and>
   map_of (nodeforge cleared) (module cleared) = None \<and>
   map_of (nodeforge (addModule ''Settings'' cleared)) (module (addModule ''Settings'' cleared))
     = Some [] \<and>
   thrown (import_data [(''Home'', [])] True cleared) = Some TypeError \<and>
   map_of (nodeforge (state_of (import_data [(''Home'', [])] True cleared)))
     (module (state_of (import_data [(''Home'', [])] True cleared))) = None \<and>
   thrown (changeModule ''Settings'' cleared) = Some TypeError \<and>
   map_of (nodeforge (state_of (changeModule ''Settings'' cleared)))
     (module (state_of (changeModule ''Settings'' cleared))) = None"
  by code_simp

section \<open>Behaviour at the documented calls\<close>

lemma scenario_ids:
  "returned node_A_added = Some (IdNum 1) \<and> returned node_B_added = Some (IdNum 2)"
  by code_simp

text \<open>
  C2. In the scenario, \<open>addConnection(A, B, "output_1", "input_1")\<close> with the ids
  \<open>addNode\<close> returned succeeds; the claim is that the same call again returns false and
  adds nothing. The stored record holds the string \<open>"2"\<close>, the argument is the number 2,
  the check \<open>===\<close> fails, and the second call returns true with the pair stored twice.
\<close>

theorem addConnection_again_duplicates:
  "returned connected = Some True \<and>
   returned (addConnection (IdNum 1) (IdNum 2) ''output_1'' ''input_1'' (state_of connected))
     = Some True \<and>
   out_conns (nodeforge (state_of
       (addConnection (IdNum 1) (IdNum 2) ''output_1'' ''input_1'' (state_of connected))))
     ''Home'' ''1'' ''output_1''
     = Some [OutConn (IdStr ''2'') ''input_1'' None, OutConn (IdStr ''2'') ''input_1'' None] \<and>
   in_conns (nodeforge (state_of
       (addConnection (IdNum 1) (IdNum 2) ''output_1'' ''input_1'' (state_of connected))))
     ''Home'' ''2'' ''input_1''
     = Some [InConn (IdStr ''1'') ''output_1'', InConn (IdStr ''1'') ''output_1'']"
  by code_simp

text \<open>
  C1. After \<open>removeNodeInput(2, 'input_1')\<close> on the connected pair, with the id as
  \<open>addNode\<close> returned it, node 1 still holds the output record naming (2, input_1) while
  node 2 has no port \<open>input_1\<close> left: the pairing is broken.
\<close>

theorem removeNodeInput_breaks_pairing:
  "returned (removeNodeInput (IdNum 2) ''input_1'' (state_of connected)) = Some () \<and>
   out_conns (nodeforge (state_of (removeNodeInput (IdNum 2) ''input_1'' (state_of connected))))
     ''Home'' ''1'' ''output_1''
     = Some [OutConn (IdStr ''2'') ''input_1'' None] \<and>
   in_conns (nodeforge (state_of (removeNodeInput (IdNum 2) ''input_1'' (state_of connected))))
     ''Home'' ''2'' ''input_1''
     = None"
  by code_simp

text \<open>
  C4. For an id that no module holds, \<open>getModuleFromNodeId\<close> returns \<open>undefined\<close> and
  \<open>getNodeFromId\<close> throws a \<open>TypeError\<close> instead of returning a not-found result.
\<close>

theorem getNodeFromId_absent_throws:
  "getModuleFromNodeId (IdNum 99) two_nodes = None \<and>
   thrown (getNodeFromId (IdNum 99) two_nodes) = Some TypeError"
  by code_simp

text \<open>
  C7. In the default rendering mode the connection element holds the path and then the
  points, so the first point is child 1. Removing it deletes entry 1 of the stored
  list, the second point, while the element of the first point leaves the canvas.
\<close>

theorem removeReroutePoint_default_off_by_one:
  "out_conns (nodeforge (state_of rerouted_default)) ''Home'' ''1'' ''output_1''
     = Some [OutConn (IdStr ''2'') ''input_1'' (Some [(10, 10), (20, 20)])] \<and>
   map c_children (dom_conns (state_of rerouted_default))
     = [[MainPath, Point (10, 10), Point (20, 20)]] \<and>
   returned (removeReroutePoint 0 1 (state_of rerouted_default)) = Some () \<and>
   out_conns (nodeforge (state_of (removeReroutePoint 0 1 (state_of rerouted_default))))
     ''Home'' ''1'' ''output_1''
     = Some [OutConn (IdStr ''2'') ''input_1'' (Some [(10, 10)])] \<and>
   map c_children (dom_conns (state_of (removeReroutePoint 0 1 (state_of rerouted_default))))
     = [[MainPath, Point (20, 20)]]"
  by code_simp

lemma removeReroutePoint_fixed_example:
  "map c_children (dom_conns (state_of rerouted_fixed))
     = [[MainPath, MainPath, MainPath, Point (10, 10), Point (20, 20)]] \<and>
   out_conns (nodeforge (state_of (removeReroutePoint 0 3 (state_of rerouted_fixed))))
     ''Home'' ''1'' ''output_1''
     = Some [OutConn (IdStr ''2'') ''input_1'' (Some [(20, 20)])] \<and>
   map c_children (dom_conns (state_of (removeReroutePoint 0 3 (state_of rerouted_fixed))))
     = [[MainPath, MainPath, Point (20, 20)]]"
  by code_simp

text \<open>
  C8. \<open>changeModule('Settings')\<close> dispatches \<open>moduleChanged\<close> before it assigns the
  active module: the listener of that event still reads \<open>Home\<close>.
\<close>

theorem changeModule_dispatches_before_switch:
  "returned (changeModule ''Settings'' with_settings) = Some () \<and>
   last (emitted (state_of (changeModule ''Settings'' with_settings)))
     = (ModuleChanged ''Settings'', ''Home'') \<and>
   module (state_of (changeModule ''Settings'' with_settings)) = ''Settings''"
  by code_simp

text \<open>
  C9. With inputs \<open>input_2\<close> and \<open>input_3\<close> left, \<open>addNodeInput\<close> counts two ports and
  writes \<open>input_3\<close>: no port is added, and the connection list of the existing \<open>input_3\<close>
  is emptied while the peer keeps its record.
\<close>

theorem addNodeInput_overwrites_port:
  "map_option inputs (get_node (nodeforge (state_of gap_left)) ''Home'' ''1'')
     = Some [(''input_2'', []), (''input_3'', [InConn (IdStr ''2'') ''output_1''])] \<and>
   returned (addNodeInput (IdNum 1) (state_of gap_left)) = Some () \<and>
   map_option inputs (get_node (nodeforge (state_of (addNodeInput (IdNum 1) (state_of gap_left))))
       ''Home'' ''1'')
     = Some [(''input_2'', []), (''input_3'', [])] \<and>
   out_conns (nodeforge (state_of (addNodeInput (IdNum 1) (state_of gap_left))))
     ''Home'' ''2'' ''output_1''
     = Some [OutConn (IdStr ''1'') ''input_3'' None]"
  by code_simp

end
